theory Spec2Isabelle
  imports Main
begin

section \<open>Data returned by the control plane\<close>

text \<open>
  The script \<^verbatim>\<open>aws-autoscaling-rollout.py\<close> reads JSON documents from four boto3
  clients. Only the keys the script reads are kept; each document is a record whose
  fields carry the key names of the source.
\<close>

record asg_instance =
  InstanceId :: string
  HealthStatus :: string
  InstanceLaunchConfigurationName :: "string option"
  InstanceLaunchTemplateName :: "string option"

record autoscaling_group =
  AutoScalingGroupName :: string
  MaxSize :: int
  DesiredCapacity :: int
  LoadBalancerNames :: "string list"
  TargetGroupARNs :: "string list"
  SuspendedProcesses :: "string list"
  Instances :: "asg_instance list"
  LaunchConfigurationName :: "string option"
  MixedInstancesPolicyTemplateName :: "string option"

text \<open>One entry of \<^verbatim>\<open>TargetHealthDescriptions\<close>: \<^verbatim>\<open>Target.Id\<close> and \<^verbatim>\<open>TargetHealth.State\<close>.\<close>

record target_health_description =
  TargetId :: string
  TargetHealthState :: string

text \<open>One entry of \<^verbatim>\<open>InstanceStates\<close> of a classic load balancer.\<close>

record instance_state =
  StateInstanceId :: string
  State :: string

text \<open>A classic load balancer description: the ids under its \<^verbatim>\<open>Instances\<close> key.\<close>

record load_balancer =
  LoadBalancerInstances :: "string list"

record instance_details =
  DetailsInstanceId :: string
  PrivateIpAddress :: "string option"
  PublicIpAddress :: "string option"

text \<open>
  A call into a library either raises or answers. Read calls of the boto3 clients answer
  with a document, mutating calls with the \<^verbatim>\<open>HTTPStatusCode\<close> of their response
  metadata, \<^verbatim>\<open>subprocess.call\<close> with the exit status of the command.
\<close>

datatype 'a reply = Raises | Reply 'a

section \<open>How the script stops\<close>

datatype exn = Exception | BotoError | OSError | NameError | KeyError | TypeError

text \<open>
  \<open>SystemExit n\<close> is \<^verbatim>\<open>exit(n)\<close>; \<open>Raised e\<close> is an exception nothing catches;
  \<open>Blocked\<close> says that a polling loop was still waiting when the polls supplied to it
  ended: the loops of the script have no bound, so a finite sequence of polls none of which
  satisfies the exit test leaves the script inside the loop.
\<close>

datatype stop = SystemExit int | Raised exn | Blocked

text \<open>The status the interpreter hands to the shell: an uncaught exception gives 1.\<close>

fun exit_status :: "stop \<Rightarrow> int option" where
  "exit_status (SystemExit n) = Some n"
| "exit_status (Raised e) = Some 1"
| "exit_status Blocked = None"

section \<open>Helper functions of the script\<close>

text \<open>\<^verbatim>\<open>get_autoscaling_group\<close>: the first group of the answer, an exception otherwise.\<close>

fun get_autoscaling_group :: "autoscaling_group list reply \<Rightarrow> stop + autoscaling_group" where
  "get_autoscaling_group Raises = Inl (Raised Exception)"
| "get_autoscaling_group (Reply []) = Inl (Raised Exception)"
| "get_autoscaling_group (Reply (g # gs)) = Inr g"

fun get_load_balancer :: "load_balancer list reply \<Rightarrow> stop + load_balancer" where
  "get_load_balancer Raises = Inl (Raised Exception)"
| "get_load_balancer (Reply []) = Inl (Raised Exception)"
| "get_load_balancer (Reply (b # bs)) = Inr b"

text \<open>\<^verbatim>\<open>get_autoscaler_healthy_instances\<close> applied to a group description.\<close>

definition get_autoscaler_healthy_instances :: "autoscaling_group \<Rightarrow> asg_instance list" where
  "get_autoscaler_healthy_instances autoscaler_description =
     fold (\<lambda>instance healthy_instances.
             if HealthStatus instance = ''Healthy'' then healthy_instances @ [instance]
             else healthy_instances)
          (Instances autoscaler_description) []"

definition get_number_of_autoscaler_healthy_instances :: "autoscaling_group \<Rightarrow> nat" where
  "get_number_of_autoscaler_healthy_instances autoscaler_description =
     length (get_autoscaler_healthy_instances autoscaler_description)"

definition get_instance_ids_of_load_balancer :: "load_balancer \<Rightarrow> string list" where
  "get_instance_ids_of_load_balancer loadbalancer = LoadBalancerInstances loadbalancer"

definition get_instance_ids_of_target_group :: "target_health_description list \<Rightarrow> string list" where
  "get_instance_ids_of_target_group descriptions =
     fold (\<lambda>target output. output @ [TargetId target]) descriptions []"

definition flatten_instance_health_array_from_loadbalancer :: "asg_instance list \<Rightarrow> string list" where
  "flatten_instance_health_array_from_loadbalancer input_instance_array =
     fold (\<lambda>instance output. output @ [InstanceId instance]) input_instance_array []"

definition flatten_instance_health_array_from_loadbalancer_only_healthy ::
  "instance_state list \<Rightarrow> string list" where
  "flatten_instance_health_array_from_loadbalancer_only_healthy input_instance_array =
     fold (\<lambda>instance output.
             if State instance = ''InService'' then output @ [StateInstanceId instance]
             else output)
          input_instance_array []"

text \<open>The ids of the targets whose state is \<^verbatim>\<open>healthy\<close> (lines 490 to 493).\<close>

definition healthy_target_ids :: "target_health_description list \<Rightarrow> string list" where
  "healthy_target_ids descriptions =
     fold (\<lambda>instance instance_health_flat.
             if TargetHealthState instance = ''healthy''
             then instance_health_flat @ [TargetId instance]
             else instance_health_flat)
          descriptions []"

section \<open>Newly appeared instances\<close>

text \<open>
  \<^verbatim>\<open>find_aws_instances_in_first_list_but_not_in_second\<close>: the inner loop sets
  \<open>found\<close> and never resets it.
\<close>

definition found_in :: "asg_instance \<Rightarrow> asg_instance list \<Rightarrow> bool" where
  "found_in instance_array_one array_two =
     fold (\<lambda>instance_array_two found.
             if InstanceId instance_array_two = InstanceId instance_array_one then True
             else found)
          array_two False"

definition find_aws_instances_in_first_list_but_not_in_second ::
  "asg_instance list \<Rightarrow> asg_instance list \<Rightarrow> asg_instance list" where
  "find_aws_instances_in_first_list_but_not_in_second array_one array_two =
     fold (\<lambda>instance_array_one output.
             if \<not> found_in instance_array_one array_two then output @ [instance_array_one]
             else output)
          array_one []"

section \<open>Polling loops\<close>

text \<open>
  Every wait of the script is a \<^verbatim>\<open>while True\<close> loop whose body reads the control
  plane afresh, then either does \<^verbatim>\<open>break\<close> or sleeps and goes round again. A loop is
  therefore a function of the sequence of polls it is fed: one element per pass, holding the
  answers that pass reads. The body of a loop gives \<open>Some v\<close> for \<^verbatim>\<open>break\<close> (with
  the value the loop leaves behind) and \<open>None\<close> for another round; an exception in the
  body leaves the loop.
\<close>

fun poll_until :: "('p \<Rightarrow> stop + 'a option) \<Rightarrow> 'p list \<Rightarrow> stop + 'a" where
  "poll_until body [] = Inl Blocked"
| "poll_until body (poll # polls) =
     (case body poll of
        Inl e \<Rightarrow> Inl e
      | Inr (Some v) \<Rightarrow> Inr v
      | Inr None \<Rightarrow> poll_until body polls)"

section \<open>Waiting for attachment and detachment\<close>

text \<open>The counting loop shared by both attachment waits (lines 500 to 506, 670 to 676).\<close>

definition count_successes :: "asg_instance list \<Rightarrow> string list \<Rightarrow> nat" where
  "count_successes as_instances instance_health_flat =
     fold (\<lambda>instance successes.
             if InstanceId instance \<in> set instance_health_flat then successes + 1
             else successes)
          as_instances 0"

text \<open>The exit test of both attachment loops (lines 508 and 509, 678 and 679).\<close>

definition attachment_complete :: "autoscaling_group \<Rightarrow> string list \<Rightarrow> bool" where
  "attachment_complete autoscaler instance_health_flat =
     (let as_instances = get_autoscaler_healthy_instances autoscaler;
          successes = count_successes as_instances instance_health_flat
      in if successes \<ge> length as_instances
         then DesiredCapacity autoscaler = int successes
         else False)"

record targetgroup_poll =
  tg_target_health :: "target_health_description list reply"
  tg_groups :: "autoscaling_group list reply"

text \<open>Lines 482 to 515, one pass.\<close>

definition targetgroup_attachment_pass :: "targetgroup_poll \<Rightarrow> stop + unit option" where
  "targetgroup_attachment_pass poll =
     (case tg_target_health poll of
        Raises \<Rightarrow> Inl (Raised BotoError)
      | Reply target_group \<Rightarrow>
          (let instance_health_flat = healthy_target_ids target_group
           in case get_autoscaling_group (tg_groups poll) of
                Inl e \<Rightarrow> Inl e
              | Inr autoscaler \<Rightarrow>
                  if attachment_complete autoscaler instance_health_flat then Inr (Some ())
                  else Inr None))"

definition wait_for_complete_targetgroup_autoscaler_attachment ::
  "targetgroup_poll list \<Rightarrow> stop + unit" where
  "wait_for_complete_targetgroup_autoscaler_attachment polls =
     poll_until targetgroup_attachment_pass polls"

record loadbalancer_poll =
  lb_descriptions :: "load_balancer list reply"
  lb_instance_health :: "instance_state list reply"
  lb_groups :: "autoscaling_group list reply"

text \<open>Lines 646 to 685, one pass.\<close>

definition loadbalancer_attachment_pass :: "loadbalancer_poll \<Rightarrow> stop + unit option" where
  "loadbalancer_attachment_pass poll =
     (case get_load_balancer (lb_descriptions poll) of
        Inl e \<Rightarrow> Inl e
      | Inr loadbalancer \<Rightarrow>
          (case lb_instance_health poll of
             Raises \<Rightarrow> Inl (Raised BotoError)
           | Reply instance_health \<Rightarrow>
               (let instance_health_flat =
                      flatten_instance_health_array_from_loadbalancer_only_healthy instance_health
                in case get_autoscaling_group (lb_groups poll) of
                     Inl e \<Rightarrow> Inl e
                   | Inr autoscaler \<Rightarrow>
                       if attachment_complete autoscaler instance_health_flat
                       then Inr (Some ())
                       else Inr None)))"

definition wait_for_complete_loadbalancer_autoscaler_attachment ::
  "loadbalancer_poll list \<Rightarrow> stop + unit" where
  "wait_for_complete_loadbalancer_autoscaler_attachment polls =
     poll_until loadbalancer_attachment_pass polls"

text \<open>The counting loop of both detachment waits (lines 529 to 536, 566 to 573).\<close>

definition count_failures :: "string list \<Rightarrow> string list \<Rightarrow> nat" where
  "count_failures instance_ids attached =
     fold (\<lambda>instance failures. if instance \<in> set attached then failures + 1 else failures)
          instance_ids 0"

text \<open>Lines 526 to 540, one pass.\<close>

definition loadbalancer_detachment_pass ::
  "string list \<Rightarrow> load_balancer list reply \<Rightarrow> stop + unit option" where
  "loadbalancer_detachment_pass instance_ids poll =
     (case get_load_balancer poll of
        Inl e \<Rightarrow> Inl e
      | Inr loadbalancer \<Rightarrow>
          (let lb_instances = get_instance_ids_of_load_balancer loadbalancer;
               failures = count_failures instance_ids lb_instances
           in if failures = 0 then Inr (Some ()) else Inr None))"

definition wait_for_instances_to_detach_from_loadbalancer ::
  "string list \<Rightarrow> load_balancer list reply list \<Rightarrow> stop + unit" where
  "wait_for_instances_to_detach_from_loadbalancer instance_ids polls =
     poll_until (loadbalancer_detachment_pass instance_ids) polls"

text \<open>Lines 555 to 577, one pass; the state of a target is not looked at (line 564).\<close>

definition targetgroup_detachment_pass ::
  "string list \<Rightarrow> target_health_description list reply \<Rightarrow> stop + unit option" where
  "targetgroup_detachment_pass instance_ids poll =
     (case poll of
        Raises \<Rightarrow> Inl (Raised BotoError)
      | Reply target_group \<Rightarrow>
          (let instance_health_flat = get_instance_ids_of_target_group target_group;
               failures = count_failures instance_ids instance_health_flat
           in if failures = 0 then Inr (Some ()) else Inr None))"

definition wait_for_instances_to_detach_from_target_group ::
  "string list \<Rightarrow> target_health_description list reply list \<Rightarrow> stop + unit" where
  "wait_for_instances_to_detach_from_target_group instance_ids polls =
     poll_until (targetgroup_detachment_pass instance_ids) polls"

section \<open>Waiting for the fleet to settle\<close>

text \<open>
  \<^verbatim>\<open>check_if_autoscaler_is_scaling\<close> describes the group itself and leaves with
  \<^verbatim>\<open>exit(1)\<close> unless exactly one group comes back.
\<close>

fun check_if_autoscaler_is_scaling :: "autoscaling_group list reply \<Rightarrow> stop + bool" where
  "check_if_autoscaler_is_scaling Raises = Inl (Raised BotoError)"
| "check_if_autoscaler_is_scaling (Reply [autoscaler]) =
     (let healthy_instance_count = get_number_of_autoscaler_healthy_instances autoscaler
      in if int healthy_instance_count \<noteq> DesiredCapacity autoscaler then Inr True
         else Inr False)"
| "check_if_autoscaler_is_scaling (Reply groups) = Inl (SystemExit 1)"

text \<open>
  One pass of \<^verbatim>\<open>wait_for_autoscaler_to_have_healthy_desired_instances\<close> (lines 383 to
  390) describes the group by name to count its healthy instances (\<open>count_groups\<close>) and,
  when the count is the wanted one, describes it once more inside
  \<^verbatim>\<open>check_if_autoscaler_is_scaling\<close> (\<open>scaling_groups\<close>).
\<close>

record scaling_poll =
  count_groups :: "autoscaling_group list reply"
  scaling_groups :: "autoscaling_group list reply"

definition healthy_desired_pass :: "int \<Rightarrow> scaling_poll \<Rightarrow> stop + unit option" where
  "healthy_desired_pass desired_capacity poll =
     (case get_autoscaling_group (count_groups poll) of
        Inl e \<Rightarrow> Inl e
      | Inr described \<Rightarrow>
          (let healthy_instance_count = int (get_number_of_autoscaler_healthy_instances described)
           in if desired_capacity \<noteq> healthy_instance_count then Inr None
              else (case check_if_autoscaler_is_scaling (scaling_groups poll) of
                      Inl e \<Rightarrow> Inl e
                    | Inr scaling \<Rightarrow> if scaling then Inr None else Inr (Some ()))))"

text \<open>
  The argument of the wait is a name or a description (\<^verbatim>\<open>type(...) is str\<close>,
  lines 375 to 378). A name is looked up once, before the loop; \<open>entry\<close> is the answer
  to that lookup.
\<close>

datatype name_or_definition = ByName string | Definition autoscaling_group

fun entry_description ::
  "name_or_definition \<Rightarrow> autoscaling_group list reply \<Rightarrow> stop + autoscaling_group" where
  "entry_description (ByName name) entry = get_autoscaling_group entry"
| "entry_description (Definition autoscaler_description) entry = Inr autoscaler_description"

definition wait_for_autoscaler_to_have_healthy_desired_instances ::
  "name_or_definition \<Rightarrow> autoscaling_group list reply \<Rightarrow> scaling_poll list \<Rightarrow> stop + unit" where
  "wait_for_autoscaler_to_have_healthy_desired_instances autoscaling_group_name_or_definition
     entry polls =
     (case entry_description autoscaling_group_name_or_definition entry of
        Inl e \<Rightarrow> Inl e
      | Inr autoscaler_description \<Rightarrow>
          (let desired_capacity = DesiredCapacity autoscaler_description
           in poll_until (healthy_desired_pass desired_capacity) polls))"

section \<open>Calls that change the fleet, and the trace of a run\<close>

datatype hook = UpCheck | BeforeDown | AfterDown

text \<open>
  The mutating client calls with the arguments the script passes, and the external
  commands with the id of the instance they are run for (the command text is not modelled).
\<close>

datatype call =
    UpdateMaxSize string int
  | SetDesiredCapacity string int
  | SuspendProcesses string "string list"
  | ResumeProcesses string "string list"
  | ResumeAllProcesses string
  | DeregisterFromLoadBalancer string string
  | DeregisterTargets string string
  | TerminateInstance string bool
  | ShellCommand hook string

text \<open>A trace lists the calls of a run in order, each with what came back.\<close>

type_synonym trace = "(call \<times> int reply) list"

type_synonym 'a step = "trace \<times> (stop + 'a)"

definition seq :: "'a step \<Rightarrow> ('a \<Rightarrow> 'b step) \<Rightarrow> 'b step" where
  "seq m f =
     (case snd m of
        Inl e \<Rightarrow> (fst m, Inl e)
      | Inr v \<Rightarrow> (fst m @ fst (f v), snd (f v)))"

definition reading :: "stop + 'a \<Rightarrow> 'a step" where
  "reading r = ([], r)"

fun for_each :: "('a \<Rightarrow> unit step) \<Rightarrow> 'a list \<Rightarrow> unit step" where
  "for_each body [] = ([], Inr ())"
| "for_each body (x # xs) = seq (body x) (\<lambda>_. for_each body xs)"

text \<open>A client call: the trace records it, and an exception of the client goes up.\<close>

definition client :: "call \<Rightarrow> int reply \<Rightarrow> int step" where
  "client c response =
     (case response of
        Raises \<Rightarrow> ([(c, response)], Inl (Raised BotoError))
      | Reply code \<Rightarrow> ([(c, response)], Inr code))"

definition update_auto_scaling_group_max_size :: "string \<Rightarrow> int \<Rightarrow> int reply \<Rightarrow> bool step" where
  "update_auto_scaling_group_max_size autoscaling_group_name max_size response =
     seq (client (UpdateMaxSize autoscaling_group_name max_size) response)
       (\<lambda>code. reading (Inr (code = 200)))"

definition suspend_processes :: "string \<Rightarrow> string list \<Rightarrow> int reply \<Rightarrow> bool step" where
  "suspend_processes autoscaling_group_name processes_to_suspend response =
     seq (client (SuspendProcesses autoscaling_group_name processes_to_suspend) response)
       (\<lambda>code. reading (Inr (code = 200)))"

definition resume_processes :: "string \<Rightarrow> string list \<Rightarrow> int reply \<Rightarrow> bool step" where
  "resume_processes autoscaling_group_name processes_to_resume response =
     seq (client (ResumeProcesses autoscaling_group_name processes_to_resume) response)
       (\<lambda>code. reading (Inr (code = 200)))"

definition resume_all_processes :: "string \<Rightarrow> int reply \<Rightarrow> bool step" where
  "resume_all_processes autoscaling_group_name response =
     seq (client (ResumeAllProcesses autoscaling_group_name) response)
       (\<lambda>code. reading (Inr (code = 200)))"

definition deregister_instance_from_load_balancer ::
  "string \<Rightarrow> string \<Rightarrow> int reply \<Rightarrow> bool step" where
  "deregister_instance_from_load_balancer instance_id loadbalancer_name response =
     seq (client (DeregisterFromLoadBalancer instance_id loadbalancer_name) response)
       (\<lambda>code. reading (Inr (code = 200)))"

text \<open>
  Lines 358 to 371. The \<^verbatim>\<open>else\<close> branch builds its log message from
  \<^verbatim>\<open>loadbalancer_name\<close>, which is neither a parameter of this function nor a global
  of the script: evaluating the message raises \<^verbatim>\<open>NameError\<close> before
  \<^verbatim>\<open>return False\<close> is reached.
\<close>

definition deregister_instance_from_target_group ::
  "string \<Rightarrow> string \<Rightarrow> int reply \<Rightarrow> bool step" where
  "deregister_instance_from_target_group instance_id target_group_arn response =
     seq (client (DeregisterTargets instance_id target_group_arn) response)
       (\<lambda>code. if code = 200 then reading (Inr True) else reading (Inl (Raised NameError)))"

text \<open>
  Lines 414 to 433. Both branches on \<^verbatim>\<open>decrement_capacity\<close> issue the same call with
  the flag they test. The failure branch again names the undefined
  \<^verbatim>\<open>loadbalancer_name\<close> in its message, so \<^verbatim>\<open>exit(1)\<close> is never reached.
\<close>

definition terminate_instance_in_auto_scaling_group ::
  "string \<Rightarrow> string \<Rightarrow> bool \<Rightarrow> int reply \<Rightarrow> bool step" where
  "terminate_instance_in_auto_scaling_group instance_id autoscaling_group_name
     decrement_capacity response =
     seq (if decrement_capacity then client (TerminateInstance instance_id True) response
          else client (TerminateInstance instance_id False) response)
       (\<lambda>code. if code = 200 then reading (Inr True) else reading (Inl (Raised NameError)))"

definition set_desired_capacity :: "string \<Rightarrow> int \<Rightarrow> int reply \<Rightarrow> bool step" where
  "set_desired_capacity autoscaling_group_name desired_capacity response =
     seq (client (SetDesiredCapacity autoscaling_group_name desired_capacity) response)
       (\<lambda>code. if code = 200 then reading (Inr True) else reading (Inl (SystemExit 1)))"

section \<open>Choosing the instances to retire\<close>

text \<open>Python's truth test of an optional string: absent and empty are both false.\<close>

fun truthy :: "string option \<Rightarrow> bool" where
  "truthy None = False"
| "truthy (Some s) = (s \<noteq> [])"

definition get_autoscaling_group_configuration :: "autoscaling_group \<Rightarrow> stop + string option" where
  "get_autoscaling_group_configuration autoscaler =
     (let configuration = LaunchConfigurationName autoscaler
      in if \<not> truthy configuration
         then (case MixedInstancesPolicyTemplateName autoscaler of
                 None \<Rightarrow> Inl (Raised Exception)
               | Some template_name \<Rightarrow> Inr (Some template_name))
         else Inr configuration)"

definition get_instance_configuration :: "asg_instance \<Rightarrow> stop + string option" where
  "get_instance_configuration instance =
     (let configuration = InstanceLaunchConfigurationName instance
      in if \<not> truthy configuration
         then (case InstanceLaunchTemplateName instance of
                 None \<Rightarrow> Inl (Raised Exception)
               | Some template_name \<Rightarrow> Inr (Some template_name))
         else Inr configuration)"

fun get_instances_to_skip ::
  "asg_instance list \<Rightarrow> autoscaling_group \<Rightarrow> asg_instance list \<Rightarrow> stop + asg_instance list" where
  "get_instances_to_skip [] autoscaler output = Inr output"
| "get_instances_to_skip (instance # instances) autoscaler output =
     (case get_autoscaling_group_configuration autoscaler of
        Inl e \<Rightarrow> Inl e
      | Inr group_configuration \<Rightarrow>
          (case get_instance_configuration instance of
             Inl e \<Rightarrow> Inl e
           | Inr instance_configuration \<Rightarrow>
               get_instances_to_skip instances autoscaler
                 (if group_configuration = instance_configuration then output @ [instance]
                  else output)))"

text \<open>Lines 784 to 790; \<^verbatim>\<open>list.remove\<close> deletes the first equal element.\<close>

definition gather_instances_to_kill ::
  "bool \<Rightarrow> autoscaling_group \<Rightarrow> stop + asg_instance list" where
  "gather_instances_to_kill checkifinstancesneedtobeterminated autoscaler =
     (let instances_to_kill = get_autoscaler_healthy_instances autoscaler
      in if checkifinstancesneedtobeterminated
         then (case get_instances_to_skip instances_to_kill autoscaler [] of
                 Inl e \<Rightarrow> Inl e
               | Inr instances_to_skip \<Rightarrow>
                   Inr (fold (\<lambda>instance remaining. remove1 instance remaining)
                          instances_to_skip instances_to_kill))
         else Inr instances_to_kill)"

section \<open>One round of the retire loop\<close>

text \<open>\<^verbatim>\<open>describe_instance\<close>: the first instance of the first reservation that has one.\<close>

fun describe_instance :: "instance_details list list reply \<Rightarrow> stop + instance_details option" where
  "describe_instance Raises = Inl (Raised BotoError)"
| "describe_instance (Reply reservations) =
     Inr (case concat reservations of [] \<Rightarrow> None | instance # rest \<Rightarrow> Some instance)"

text \<open>Lines 834 to 843: poll until the healthy members hold an id not seen before.\<close>

definition new_instances_pass ::
  "asg_instance list \<Rightarrow> autoscaling_group list reply \<Rightarrow> stop + asg_instance list option" where
  "new_instances_pass current_instance_list poll =
     (case get_autoscaling_group poll of
        Inl e \<Rightarrow> Inl e
      | Inr described \<Rightarrow>
          (let new_current_instance_list = get_autoscaler_healthy_instances described;
               new_instances = find_aws_instances_in_first_list_but_not_in_second
                                 new_current_instance_list current_instance_list
           in if length new_instances = 0 then Inr None else Inr (Some new_instances)))"

definition wait_for_new_instances ::
  "asg_instance list \<Rightarrow> autoscaling_group list reply list \<Rightarrow> stop + asg_instance list" where
  "wait_for_new_instances current_instance_list polls =
     poll_until (new_instances_pass current_instance_list) polls"

text \<open>
  Lines 867 to 888, the body of the \<^verbatim>\<open>try\<close> for one new instance. The result is the
  command run, if one was, and the new value of \<^verbatim>\<open>succeeded_health_up_check\<close>. The
  \<^verbatim>\<open>except\<close> clause only logs a warning, so every exception of the body leaves the
  flag as it was.
\<close>

record upcheck_attempt =
  attempt_details :: "instance_details list list reply"
  attempt_retval :: "int reply"

definition check_new_instance :: "asg_instance \<Rightarrow> upcheck_attempt \<Rightarrow> bool \<Rightarrow> trace \<times> bool" where
  "check_new_instance new_instance attempt succeeded_health_up_check =
     (case describe_instance (attempt_details attempt) of
        Inl e \<Rightarrow> ([], succeeded_health_up_check)
      | Inr None \<Rightarrow> ([], succeeded_health_up_check)
      | Inr (Some instance_details) \<Rightarrow>
          (case PrivateIpAddress instance_details of
             None \<Rightarrow> ([], succeeded_health_up_check)
           | Some private_ip_address \<Rightarrow>
               (case attempt_retval attempt of
                  Raises \<Rightarrow>
                    ([(ShellCommand UpCheck (InstanceId new_instance), Raises)],
                     succeeded_health_up_check)
                | Reply retval \<Rightarrow>
                    ([(ShellCommand UpCheck (InstanceId new_instance), Reply retval)],
                     if retval \<noteq> 0 then False else succeeded_health_up_check))))"

text \<open>One batch: the \<^verbatim>\<open>for\<close> loop over the new instances (line 867).\<close>

fun check_batch ::
  "(string \<Rightarrow> upcheck_attempt) \<Rightarrow> asg_instance list \<Rightarrow> bool \<Rightarrow> trace \<times> bool" where
  "check_batch batch [] succeeded_health_up_check = ([], succeeded_health_up_check)"
| "check_batch batch (new_instance # rest) succeeded_health_up_check =
     (let first = check_new_instance new_instance (batch (InstanceId new_instance))
                    succeeded_health_up_check;
          others = check_batch batch rest (snd first)
      in (fst first @ fst others, snd others))"

text \<open>Lines 864 to 895: batches are repeated until one leaves the flag set.\<close>

fun external_health_up_check ::
  "asg_instance list \<Rightarrow> (string \<Rightarrow> upcheck_attempt) list \<Rightarrow> unit step" where
  "external_health_up_check new_instances [] = ([], Inl Blocked)"
| "external_health_up_check new_instances (batch # batches) =
     (let checked = check_batch batch new_instances True
      in if snd checked then (fst checked, Inr ())
         else seq (fst checked, Inr ()) (\<lambda>_. external_health_up_check new_instances batches))"

text \<open>Lines 914 to 923 and 928 to 935: poll one source until the id has left it.\<close>

definition out_of_load_balancer_pass ::
  "string \<Rightarrow> load_balancer list reply \<Rightarrow> stop + unit option" where
  "out_of_load_balancer_pass instance_id poll =
     (case get_load_balancer poll of
        Inl e \<Rightarrow> Inl e
      | Inr loadbalancer \<Rightarrow>
          (let instance_ids = get_instance_ids_of_load_balancer loadbalancer
           in if instance_id \<in> set instance_ids then Inr None else Inr (Some ())))"

definition wait_until_out_of_load_balancer ::
  "string \<Rightarrow> load_balancer list reply list \<Rightarrow> stop + unit" where
  "wait_until_out_of_load_balancer instance_id polls =
     poll_until (out_of_load_balancer_pass instance_id) polls"

definition out_of_target_group_pass ::
  "string \<Rightarrow> target_health_description list reply \<Rightarrow> stop + unit option" where
  "out_of_target_group_pass instance_id poll =
     (case poll of
        Raises \<Rightarrow> Inl (Raised BotoError)
      | Reply target_group \<Rightarrow>
          (let instance_ids = get_instance_ids_of_target_group target_group
           in if instance_id \<in> set instance_ids then Inr None else Inr (Some ())))"

definition wait_until_out_of_target_group ::
  "string \<Rightarrow> target_health_description list reply list \<Rightarrow> stop + unit" where
  "wait_until_out_of_target_group instance_id polls =
     poll_until (out_of_target_group_pass instance_id) polls"

text \<open>
  Lines 938 to 954 and 975 to 992. Reading \<^verbatim>\<open>PrivateIpAddress\<close> fails with
  \<^verbatim>\<open>TypeError\<close> when \<^verbatim>\<open>describe_instance\<close> gave \<^verbatim>\<open>None\<close> and with
  \<^verbatim>\<open>KeyError\<close> when the key is absent. A non-zero status only logs a warning.
\<close>

definition run_server_down_command ::
  "hook \<Rightarrow> instance_details option \<Rightarrow> int reply \<Rightarrow> unit step" where
  "run_server_down_command which old_instance_details result =
     (case old_instance_details of
        None \<Rightarrow> ([], Inl (Raised TypeError))
      | Some details \<Rightarrow>
          (case PrivateIpAddress details of
             None \<Rightarrow> ([], Inl (Raised KeyError))
           | Some old_private_ip_address \<Rightarrow>
               (case result of
                  Raises \<Rightarrow>
                    ([(ShellCommand which (DetailsInstanceId details), Raises)],
                     Inl (Raised OSError))
                | Reply retval \<Rightarrow>
                    ([(ShellCommand which (DetailsInstanceId details), Reply retval)],
                     Inr ()))))"

text \<open>What the control plane and the commands answer during one round of the loop.\<close>

record round_answers =
  old_instance_reservations :: "instance_details list list reply"
  settle_entry :: "autoscaling_group list reply"
  settle_polls :: "scaling_poll list"
  spinup_polls :: "autoscaling_group list reply list"
  loadbalancer_attach_polls :: "string \<Rightarrow> loadbalancer_poll list"
  targetgroup_attach_polls :: "string \<Rightarrow> targetgroup_poll list"
  upcheck_batches :: "(string \<Rightarrow> upcheck_attempt) list"
  deregister_loadbalancer_response :: "string \<Rightarrow> int reply"
  deregister_targetgroup_response :: "string \<Rightarrow> int reply"
  loadbalancer_drain_polls :: "string \<Rightarrow> load_balancer list reply list"
  targetgroup_drain_polls :: "string \<Rightarrow> target_health_description list reply list"
  before_down_retval :: "int reply"
  refreshed_groups :: "autoscaling_group list reply"
  terminate_response :: "int reply"
  after_down_retval :: "int reply"

record options =
  autoscaler_opt :: string
  force :: bool
  skip :: bool
  waitforseconds :: int
  checkifnewserverisupcommand :: string
  runbeforeserverdowncommand :: string
  runafterserverdowncommand :: string
  checkifinstancesneedtobeterminated :: bool

text \<open>
  Lines 846 to 859 (and 761 to 774): the attachment waits over every load balancer and
  every target group of the description held in \<^verbatim>\<open>autoscaler\<close>. The tests
  \<^verbatim>\<open>len(...) > 0\<close> around the \<^verbatim>\<open>for\<close> loops only guard a log line.
\<close>

definition wait_for_all_attachments ::
  "autoscaling_group \<Rightarrow> (string \<Rightarrow> loadbalancer_poll list) \<Rightarrow>
   (string \<Rightarrow> targetgroup_poll list) \<Rightarrow> unit step" where
  "wait_for_all_attachments autoscaler loadbalancer_polls targetgroup_polls =
     seq (for_each
            (\<lambda>name. reading
               (wait_for_complete_loadbalancer_autoscaler_attachment (loadbalancer_polls name)))
            (LoadBalancerNames autoscaler))
       (\<lambda>_. for_each
            (\<lambda>name. reading
               (wait_for_complete_targetgroup_autoscaler_attachment (targetgroup_polls name)))
            (TargetGroupARNs autoscaler))"

text \<open>Lines 897 to 909: the results of the two deregister functions are dropped.\<close>

definition deregister_from_all ::
  "autoscaling_group \<Rightarrow> string \<Rightarrow> round_answers \<Rightarrow> unit step" where
  "deregister_from_all autoscaler instance_id answers =
     seq (for_each
            (\<lambda>name. seq (deregister_instance_from_load_balancer instance_id name
                           (deregister_loadbalancer_response answers name))
                      (\<lambda>_. ([], Inr ())))
            (LoadBalancerNames autoscaler))
       (\<lambda>_. for_each
            (\<lambda>name. seq (deregister_instance_from_target_group instance_id name
                           (deregister_targetgroup_response answers name))
                      (\<lambda>_. ([], Inr ())))
            (TargetGroupARNs autoscaler))"

text \<open>Lines 911 to 935.\<close>

definition wait_until_out_of_all ::
  "autoscaling_group \<Rightarrow> string \<Rightarrow> round_answers \<Rightarrow> unit step" where
  "wait_until_out_of_all autoscaler instance_id answers =
     seq (for_each
            (\<lambda>name. reading
               (wait_until_out_of_load_balancer instance_id (loadbalancer_drain_polls answers name)))
            (LoadBalancerNames autoscaler))
       (\<lambda>_. for_each
            (\<lambda>name. reading
               (wait_until_out_of_target_group instance_id (targetgroup_drain_polls answers name)))
            (TargetGroupARNs autoscaler))"

text \<open>
  Lines 822 to 963 of one round, everything before the termination. The result is the
  detail of the old instance and the refreshed \<^verbatim>\<open>current_instance_list\<close>.
\<close>

definition replace_and_drain ::
  "options \<Rightarrow> autoscaling_group \<Rightarrow> round_answers \<Rightarrow> asg_instance \<Rightarrow> asg_instance list \<Rightarrow>
   (instance_details option \<times> asg_instance list) step" where
  "replace_and_drain opts autoscaler answers instance current_instance_list =
     seq (reading (describe_instance (old_instance_reservations answers)))
       (\<lambda>old_instance_details.
     seq (reading (wait_for_autoscaler_to_have_healthy_desired_instances
                     (ByName (autoscaler_opt opts)) (settle_entry answers) (settle_polls answers)))
       (\<lambda>_.
     seq (reading (wait_for_new_instances current_instance_list (spinup_polls answers)))
       (\<lambda>new_instances.
     seq (if \<not> skip opts
          then wait_for_all_attachments autoscaler (loadbalancer_attach_polls answers)
                 (targetgroup_attach_polls answers)
          else ([], Inr ()))
       (\<lambda>_.
     seq (if checkifnewserverisupcommand opts \<noteq> []
          then external_health_up_check new_instances (upcheck_batches answers)
          else ([], Inr ()))
       (\<lambda>_.
     seq (deregister_from_all autoscaler (InstanceId instance) answers)
       (\<lambda>_.
     seq (wait_until_out_of_all autoscaler (InstanceId instance) answers)
       (\<lambda>_.
     seq (if runbeforeserverdowncommand opts \<noteq> []
          then run_server_down_command BeforeDown old_instance_details
                 (before_down_retval answers)
          else ([], Inr ()))
       (\<lambda>_.
     seq (reading (get_autoscaling_group (refreshed_groups answers)))
       (\<lambda>refreshed.
     ([], Inr (old_instance_details, get_autoscaler_healthy_instances refreshed)))))))))))"

text \<open>
  Lines 965 to 972. \<open>i\<close> is the index \<^verbatim>\<open>enumerate\<close> gives and \<open>n\<close> is
  \<^verbatim>\<open>len(instances_to_kill)\<close>. The result is the new value of \<^verbatim>\<open>downscaled\<close>.
\<close>

definition terminate_retiree ::
  "options \<Rightarrow> nat \<Rightarrow> nat \<Rightarrow> asg_instance \<Rightarrow> int reply \<Rightarrow> bool \<Rightarrow> bool step" where
  "terminate_retiree opts n i instance response downscaled =
     (if i + 1 = n
      then seq (terminate_instance_in_auto_scaling_group (InstanceId instance)
                  (autoscaler_opt opts) True response)
             (\<lambda>_. ([], Inr True))
      else seq (terminate_instance_in_auto_scaling_group (InstanceId instance)
                  (autoscaler_opt opts) False response)
             (\<lambda>_. ([], Inr downscaled)))"

text \<open>The state the loop carries: \<^verbatim>\<open>current_instance_list\<close> and \<^verbatim>\<open>downscaled\<close>.\<close>

type_synonym loop_state = "asg_instance list \<times> bool"

definition retire_instance ::
  "options \<Rightarrow> autoscaling_group \<Rightarrow> nat \<Rightarrow> round_answers \<Rightarrow> nat \<Rightarrow> asg_instance \<Rightarrow>
   loop_state \<Rightarrow> loop_state step" where
  "retire_instance opts autoscaler n answers i instance state =
     seq (replace_and_drain opts autoscaler answers instance (fst state))
       (\<lambda>drained.
     seq (terminate_retiree opts n i instance (terminate_response answers) (snd state))
       (\<lambda>downscaled.
     seq (if runafterserverdowncommand opts \<noteq> []
          then run_server_down_command AfterDown (fst drained) (after_down_retval answers)
          else ([], Inr ()))
       (\<lambda>_. ([], Inr (snd drained, downscaled)))))"

text \<open>
  Line 820: \<^verbatim>\<open>for i, instance in enumerate(instances_to_kill)\<close>. The loop runs over
  the enumerated list; round \<open>i\<close> reads \<open>rounds i\<close>.
\<close>

fun retire_loop ::
  "options \<Rightarrow> autoscaling_group \<Rightarrow> nat \<Rightarrow> (nat \<Rightarrow> round_answers) \<Rightarrow>
   (nat \<times> asg_instance) list \<Rightarrow> loop_state \<Rightarrow> loop_state step" where
  "retire_loop opts autoscaler n rounds [] state = ([], Inr state)"
| "retire_loop opts autoscaler n rounds ((i, instance) # rest) state =
     seq (retire_instance opts autoscaler n (rounds i) i instance state)
       (\<lambda>state'. retire_loop opts autoscaler n rounds rest state')"

section \<open>The script from top to bottom\<close>

text \<open>Everything the control plane answers during one run.\<close>

record answers =
  initial_groups :: "autoscaling_group list reply"
  expand_response :: "int reply"
  force_resume_response :: "int reply"
  suspend_response :: "int reply"
  settled_groups :: "autoscaling_group list reply"
  baseline_polls :: "scaling_poll list"
  loadbalancer_baseline_polls :: "string \<Rightarrow> loadbalancer_poll list"
  targetgroup_baseline_polls :: "string \<Rightarrow> targetgroup_poll list"
  rollout_groups :: "autoscaling_group list reply"
  bump_response :: "int reply"
  rounds :: "nat \<Rightarrow> round_answers"
  loadbalancer_detach_polls :: "string \<Rightarrow> load_balancer list reply list"
  targetgroup_detach_polls :: "string \<Rightarrow> target_health_description list reply list"
  restore_capacity_response :: "int reply"
  resume_response :: "int reply"
  shrink_response :: "int reply"

definition get_suspended_processes :: "autoscaling_group \<Rightarrow> string list" where
  "get_suspended_processes autoscaling_group =
     fold (\<lambda>item output. output @ [item]) (SuspendedProcesses autoscaling_group) []"

text \<open>Lines 705 to 713.\<close>

definition expand_headroom :: "options \<Rightarrow> autoscaling_group \<Rightarrow> int reply \<Rightarrow> unit step" where
  "expand_headroom opts autoscaler response =
     (let autoscaler_old_max_size = MaxSize autoscaler;
          autoscaler_old_desired_capacity = DesiredCapacity autoscaler
      in if autoscaler_old_max_size = autoscaler_old_desired_capacity
         then seq (update_auto_scaling_group_max_size (autoscaler_opt opts)
                     (autoscaler_old_max_size + 1) response)
                (\<lambda>ok. if ok then ([], Inr ()) else ([], Inl (SystemExit 1)))
         else ([], Inr ()))"

text \<open>Lines 730 to 743.\<close>

definition check_processes :: "options \<Rightarrow> autoscaling_group \<Rightarrow> int reply \<Rightarrow> unit step" where
  "check_processes opts autoscaler response =
     (if force opts
      then seq (resume_all_processes (autoscaler_opt opts) response) (\<lambda>_. ([], Inr ()))
      else (let required_processes = [''Terminate'', ''Launch'', ''HealthCheck'',
                                      ''AddToLoadBalancer''];
                suspended = get_suspended_processes autoscaler;
                succeed = fold (\<lambda>process succeed.
                                  if process \<in> set suspended then False else succeed)
                            required_processes True
            in if succeed = False then ([], Inl (SystemExit 1)) else ([], Inr ())))"

definition suspend_new_processes :: "string list" where
  "suspend_new_processes = [''ScheduledActions'', ''AlarmNotification'', ''AZRebalance'']"

text \<open>Lines 730 to 774: process checks, suspension and the waits for a settled fleet.\<close>

definition settle :: "options \<Rightarrow> answers \<Rightarrow> autoscaling_group \<Rightarrow> unit step" where
  "settle opts env first =
     seq (check_processes opts first (force_resume_response env))
       (\<lambda>_.
     seq (suspend_processes (autoscaler_opt opts) suspend_new_processes (suspend_response env))
       (\<lambda>_.
     seq (reading (get_autoscaling_group (settled_groups env)))
       (\<lambda>settled.
     seq (reading (wait_for_autoscaler_to_have_healthy_desired_instances (Definition settled)
                     (settled_groups env) (baseline_polls env)))
       (\<lambda>_.
     if \<not> force opts
     then wait_for_all_attachments settled (loadbalancer_baseline_polls env)
            (targetgroup_baseline_polls env)
     else ([], Inr ())))))"

text \<open>
  Lines 780 to 815: the description the loop works from, \<^verbatim>\<open>instances_to_kill\<close>, and
  the increase of the desired capacity by one when there is an instance to retire.
\<close>

definition plan ::
  "options \<Rightarrow> answers \<Rightarrow> (autoscaling_group \<times> asg_instance list) step" where
  "plan opts env =
     seq (reading (get_autoscaling_group (rollout_groups env)))
       (\<lambda>autoscaler.
     seq (reading (gather_instances_to_kill (checkifinstancesneedtobeterminated opts) autoscaler))
       (\<lambda>instances_to_kill.
     seq (if length instances_to_kill > 0
          then seq (set_desired_capacity (autoscaler_opt opts) (DesiredCapacity autoscaler + 1)
                      (bump_response env))
                 (\<lambda>_. ([], Inr ()))
          else ([], Inr ()))
       (\<lambda>_. ([], Inr (autoscaler, instances_to_kill)))))"

text \<open>Lines 994 to 1009.\<close>

definition verify_detachment ::
  "options \<Rightarrow> answers \<Rightarrow> autoscaling_group \<Rightarrow> asg_instance list \<Rightarrow> unit step" where
  "verify_detachment opts env autoscaler instances_to_kill =
     (let instances_to_kill_flat =
            flatten_instance_health_array_from_loadbalancer instances_to_kill
      in if \<not> force opts
         then seq (for_each
                     (\<lambda>name. reading
                        (wait_for_instances_to_detach_from_loadbalancer instances_to_kill_flat
                           (loadbalancer_detach_polls env name)))
                     (LoadBalancerNames autoscaler))
                (\<lambda>_. for_each
                     (\<lambda>name. reading
                        (wait_for_instances_to_detach_from_target_group instances_to_kill_flat
                           (targetgroup_detach_polls env name)))
                     (TargetGroupARNs autoscaler))
         else ([], Inr ()))"

text \<open>Lines 1011 to 1014.\<close>

definition restore_capacity ::
  "options \<Rightarrow> autoscaling_group \<Rightarrow> bool \<Rightarrow> int reply \<Rightarrow> unit step" where
  "restore_capacity opts first downscaled response =
     (if downscaled = False
      then seq (set_desired_capacity (autoscaler_opt opts) (DesiredCapacity first) response)
             (\<lambda>_. ([], Inr ()))
      else ([], Inr ()))"

text \<open>Lines 1016 to 1022.\<close>

definition resume_suspended :: "options \<Rightarrow> int reply \<Rightarrow> unit step" where
  "resume_suspended opts response =
     (if force opts
      then seq (resume_all_processes (autoscaler_opt opts) response) (\<lambda>_. ([], Inr ()))
      else seq (resume_processes (autoscaler_opt opts) suspend_new_processes response)
             (\<lambda>_. ([], Inr ())))"

text \<open>Lines 1024 to 1034.\<close>

definition restore_headroom :: "options \<Rightarrow> autoscaling_group \<Rightarrow> int reply \<Rightarrow> unit step" where
  "restore_headroom opts first response =
     (let autoscaler_old_max_size = MaxSize first;
          autoscaler_old_desired_capacity = DesiredCapacity first
      in if autoscaler_old_max_size = autoscaler_old_desired_capacity
         then seq (update_auto_scaling_group_max_size (autoscaler_opt opts)
                     autoscaler_old_max_size response)
                (\<lambda>ok. if ok then ([], Inr ()) else ([], Inl (SystemExit 1)))
         else ([], Inr ()))"

text \<open>Lines 994 to 1022: what follows the loop, up to the resuming of processes.\<close>

definition wind_down ::
  "options \<Rightarrow> answers \<Rightarrow> autoscaling_group \<Rightarrow> autoscaling_group \<Rightarrow> asg_instance list \<Rightarrow>
   bool \<Rightarrow> unit step" where
  "wind_down opts env first autoscaler instances_to_kill downscaled =
     seq (verify_detachment opts env autoscaler instances_to_kill)
       (\<lambda>_.
     seq (restore_capacity opts first downscaled (restore_capacity_response env))
       (\<lambda>_. resume_suspended opts (resume_response env)))"

text \<open>Lines 715 to 1022: everything between the two changes of the maximum size.\<close>

definition replace_all :: "options \<Rightarrow> answers \<Rightarrow> autoscaling_group \<Rightarrow> unit step" where
  "replace_all opts env first =
     seq (settle opts env first)
       (\<lambda>_.
     seq (plan opts env)
       (\<lambda>planned.
     seq (retire_loop opts (fst planned) (length (snd planned)) (rounds env)
            (enumerate 0 (snd planned))
            (get_autoscaler_healthy_instances (fst planned), False))
       (\<lambda>state. wind_down opts env first (fst planned) (snd planned) (snd state))))"

text \<open>Lines 694 to 1034.\<close>

definition core_logic :: "options \<Rightarrow> answers \<Rightarrow> unit step" where
  "core_logic opts env =
     seq (reading (get_autoscaling_group (initial_groups env)))
       (\<lambda>first.
     seq (expand_headroom opts first (expand_response env))
       (\<lambda>_.
     seq (replace_all opts env first)
       (\<lambda>_. restore_headroom opts first (shrink_response env))))"

text \<open>
  The whole script: the trace of its calls and how it stops. Line 103 leaves at once
  when no name was given; line 1037 is \<^verbatim>\<open>exit(0)\<close>.
\<close>

definition rollout :: "options \<Rightarrow> answers \<Rightarrow> trace \<times> stop" where
  "rollout opts env =
     (if autoscaler_opt opts = [] then ([], SystemExit 1)
      else (case snd (core_logic opts env) of
              Inl e \<Rightarrow> (fst (core_logic opts env), e)
            | Inr _ \<Rightarrow> (fst (core_logic opts env), SystemExit 0)))"

section \<open>Reading a trace\<close>

text \<open>The entries of one kind, in the order of the trace.\<close>

definition collect :: "(call \<times> int reply \<Rightarrow> 'b list) \<Rightarrow> trace \<Rightarrow> 'b list" where
  "collect pick t = concat (map pick t)"

fun termination_of :: "call \<times> int reply \<Rightarrow> (string \<times> bool) list" where
  "termination_of (TerminateInstance instance_id decrement, response) = [(instance_id, decrement)]"
| "termination_of other = []"

definition terminations :: "trace \<Rightarrow> (string \<times> bool) list" where
  "terminations t = collect termination_of t"

fun desired_setting_of :: "call \<times> int reply \<Rightarrow> int list" where
  "desired_setting_of (SetDesiredCapacity name v, response) = [v]"
| "desired_setting_of other = []"

definition desired_settings :: "trace \<Rightarrow> int list" where
  "desired_settings t = collect desired_setting_of t"

fun max_size_setting_of :: "call \<times> int reply \<Rightarrow> int list" where
  "max_size_setting_of (UpdateMaxSize name v, response) = [v]"
| "max_size_setting_of other = []"

definition max_size_settings :: "trace \<Rightarrow> int list" where
  "max_size_settings t = collect max_size_setting_of t"

section \<open>The words of the specification\<close>

text \<open>
  A fleet member is in service in a traffic source when the source lists its id with the
  state \<^verbatim>\<open>healthy\<close> (target group) or \<^verbatim>\<open>InService\<close> (classic load balancer).
\<close>

definition healthy_in_target_group :: "target_health_description list \<Rightarrow> asg_instance \<Rightarrow> bool" where
  "healthy_in_target_group target_group i \<longleftrightarrow>
     (\<exists>d \<in> set target_group. TargetId d = InstanceId i \<and> TargetHealthState d = ''healthy'')"

definition in_service_in_load_balancer :: "instance_state list \<Rightarrow> asg_instance \<Rightarrow> bool" where
  "in_service_in_load_balancer instance_health i \<longleftrightarrow>
     (\<exists>s \<in> set instance_health. StateInstanceId s = InstanceId i \<and> State s = ''InService'')"

text \<open>
  The termination calls the specification plans for a list of retirees: one per retiree in
  order, the decrement flag set for the last one only.
\<close>

definition planned_terminations :: "asg_instance list \<Rightarrow> (string \<times> bool) list" where
  "planned_terminations instances_to_retire =
     map (\<lambda>i. (InstanceId i, False)) (butlast instances_to_retire) @
     [(InstanceId (last instances_to_retire), True)]"

text \<open>
  What the calls of a trace do to the desired capacity of the fleet when nothing but the
  script changes it. The control plane is not part of the script; this is the contract of
  the two calls the script relies on: an accepted \<^verbatim>\<open>set_desired_capacity\<close> stores its
  argument, an accepted termination with \<^verbatim>\<open>ShouldDecrementDesiredCapacity\<close> lowers the
  desired capacity by one, and no other call of the script touches it.
\<close>

fun desired_capacity_step :: "call \<times> int reply \<Rightarrow> int \<Rightarrow> int" where
  "desired_capacity_step (SetDesiredCapacity name v, Reply code) d = (if code = 200 then v else d)"
| "desired_capacity_step (TerminateInstance instance_id True, Reply code) d =
     (if code = 200 then d - 1 else d)"
| "desired_capacity_step other d = d"

definition desired_capacity_after :: "int \<Rightarrow> trace \<Rightarrow> int" where
  "desired_capacity_after d t = fold desired_capacity_step t d"

section \<open>Sample fleets and answers\<close>

text \<open>Concrete inputs on which the theorems below are exercised.\<close>

definition draining_polls_lb :: "load_balancer list reply list" where
  "draining_polls_lb =
     [Reply [\<lparr>LoadBalancerInstances = [''i-old'', ''i-new'']\<rparr>],
      Reply [\<lparr>LoadBalancerInstances = [''i-new'']\<rparr>]]"

definition draining_polls_tg :: "target_health_description list reply list" where
  "draining_polls_tg =
     [Reply [\<lparr>TargetId = ''i-old'', TargetHealthState = ''draining''\<rparr>,
             \<lparr>TargetId = ''i-new'', TargetHealthState = ''healthy''\<rparr>],
      Reply [\<lparr>TargetId = ''i-new'', TargetHealthState = ''healthy''\<rparr>]]"

definition member :: "string \<Rightarrow> string \<Rightarrow> asg_instance" where
  "member instance_id health =
     \<lparr>InstanceId = instance_id, HealthStatus = health,
      InstanceLaunchConfigurationName = Some ''web-v1'', InstanceLaunchTemplateName = None\<rparr>"

definition fleet :: "int \<Rightarrow> int \<Rightarrow> asg_instance list \<Rightarrow> autoscaling_group" where
  "fleet max_size desired members =
     \<lparr>AutoScalingGroupName = ''web'', MaxSize = max_size, DesiredCapacity = desired,
      LoadBalancerNames = [], TargetGroupARNs = [], SuspendedProcesses = [],
      Instances = members, LaunchConfigurationName = Some ''web-v2'',
      MixedInstancesPolicyTemplateName = None\<rparr>"

definition attaching_polls_tg :: "targetgroup_poll list" where
  "attaching_polls_tg =
     [\<lparr>tg_target_health = Reply [\<lparr>TargetId = ''i-a'', TargetHealthState = ''healthy''\<rparr>,
                                 \<lparr>TargetId = ''i-b'', TargetHealthState = ''initial''\<rparr>],
       tg_groups = Reply [fleet 3 2 [member ''i-a'' ''Healthy'', member ''i-b'' ''Healthy'']]\<rparr>,
      \<lparr>tg_target_health = Reply [\<lparr>TargetId = ''i-a'', TargetHealthState = ''healthy''\<rparr>,
                                 \<lparr>TargetId = ''i-b'', TargetHealthState = ''healthy''\<rparr>],
       tg_groups = Reply [fleet 3 2 [member ''i-a'' ''Healthy'', member ''i-b'' ''Healthy'']]\<rparr>]"

definition attaching_polls_lb :: "loadbalancer_poll list" where
  "attaching_polls_lb =
     [\<lparr>lb_descriptions = Reply [\<lparr>LoadBalancerInstances = [''i-a'', ''i-b'']\<rparr>],
       lb_instance_health = Reply [\<lparr>StateInstanceId = ''i-a'', State = ''InService''\<rparr>,
                                   \<lparr>StateInstanceId = ''i-b'', State = ''OutOfService''\<rparr>],
       lb_groups = Reply [fleet 3 2 [member ''i-a'' ''Healthy'', member ''i-b'' ''Healthy'']]\<rparr>,
      \<lparr>lb_descriptions = Reply [\<lparr>LoadBalancerInstances = [''i-a'', ''i-b'']\<rparr>],
       lb_instance_health = Reply [\<lparr>StateInstanceId = ''i-a'', State = ''InService''\<rparr>,
                                   \<lparr>StateInstanceId = ''i-b'', State = ''InService''\<rparr>],
       lb_groups = Reply [fleet 3 2 [member ''i-a'' ''Healthy'', member ''i-b'' ''Healthy'']]\<rparr>]"

definition stale_description :: autoscaling_group where
  "stale_description = fleet 3 2 [member ''i-a'' ''Healthy'', member ''i-b'' ''Healthy'']"

definition first_lookup :: autoscaling_group where
  "first_lookup =
     fleet 3 3 [member ''i-a'' ''Healthy'', member ''i-b'' ''Healthy'', member ''i-c'' ''Unhealthy'']"

definition second_lookup :: autoscaling_group where
  "second_lookup =
     fleet 3 3 [member ''i-a'' ''Healthy'', member ''i-b'' ''Healthy'', member ''i-c'' ''Healthy'']"

definition racing_poll :: scaling_poll where
  "racing_poll = \<lparr>count_groups = Reply [first_lookup], scaling_groups = Reply [second_lookup]\<rparr>"

definition settled_polls :: "scaling_poll list" where
  "settled_polls =
     [\<lparr>count_groups = Reply [first_lookup], scaling_groups = Reply [first_lookup]\<rparr>,
      \<lparr>count_groups = Reply [second_lookup], scaling_groups = Reply [second_lookup]\<rparr>]"

definition two_old :: "asg_instance list" where
  "two_old = [member ''i-a'' ''Healthy'', member ''i-b'' ''Healthy'']"

definition steady :: "autoscaling_group \<Rightarrow> scaling_poll" where
  "steady g = \<lparr>count_groups = Reply [g], scaling_groups = Reply [g]\<rparr>"

definition calm_round :: "autoscaling_group \<Rightarrow> int \<Rightarrow> round_answers" where
  "calm_round g code =
     \<lparr>old_instance_reservations = Reply [[]],
      settle_entry = Reply [g], settle_polls = [steady g], spinup_polls = [Reply [g]],
      loadbalancer_attach_polls = (\<lambda>name. []), targetgroup_attach_polls = (\<lambda>name. []),
      upcheck_batches = [],
      deregister_loadbalancer_response = (\<lambda>name. Reply 200),
      deregister_targetgroup_response = (\<lambda>name. Reply 200),
      loadbalancer_drain_polls = (\<lambda>name. []), targetgroup_drain_polls = (\<lambda>name. []),
      before_down_retval = Reply 0, refreshed_groups = Reply [g],
      terminate_response = Reply code, after_down_retval = Reply 0\<rparr>"

definition run_options :: options where
  "run_options =
     \<lparr>autoscaler_opt = ''web'', force = False, skip = False, waitforseconds = 0,
      checkifnewserverisupcommand = [], runbeforeserverdowncommand = [],
      runafterserverdowncommand = [], checkifinstancesneedtobeterminated = False\<rparr>"

definition calm_answers :: "int \<Rightarrow> answers" where
  "calm_answers code =
     \<lparr>initial_groups = Reply [fleet 2 2 two_old],
      expand_response = Reply 200, force_resume_response = Reply 200,
      suspend_response = Reply 200,
      settled_groups = Reply [fleet 3 2 two_old],
      baseline_polls = [steady (fleet 3 2 two_old)],
      loadbalancer_baseline_polls = (\<lambda>name. []), targetgroup_baseline_polls = (\<lambda>name. []),
      rollout_groups = Reply [fleet 3 2 two_old], bump_response = Reply 200,
      rounds = (\<lambda>i. if i = 0
                      then calm_round (fleet 3 3 (two_old @ [member ''i-c'' ''Healthy''])) code
                      else calm_round (fleet 3 3 [member ''i-b'' ''Healthy'',
                             member ''i-c'' ''Healthy'', member ''i-d'' ''Healthy'']) 200),
      loadbalancer_detach_polls = (\<lambda>name. []), targetgroup_detach_polls = (\<lambda>name. []),
      restore_capacity_response = Reply 200, resume_response = Reply 200,
      shrink_response = Reply 200\<rparr>"

definition lost_answers :: answers where
  "lost_answers = (calm_answers 200)\<lparr>initial_groups := Reply []\<rparr>"

definition current_fleet :: autoscaling_group where
  "current_fleet = (fleet 3 2 two_old)\<lparr>LaunchConfigurationName := Some ''web-v1''\<rparr>"

definition checking_options :: options where
  "checking_options = run_options\<lparr>checkifinstancesneedtobeterminated := True\<rparr>"

definition current_answers :: answers where
  "current_answers =
     (calm_answers 200)
       \<lparr>initial_groups := Reply [current_fleet],
        settled_groups := Reply [current_fleet],
        baseline_polls := [steady current_fleet],
        rollout_groups := Reply [current_fleet]\<rparr>"

definition unresolved_batch :: "string \<Rightarrow> upcheck_attempt" where
  "unresolved_batch instance_id = \<lparr>attempt_details = Raises, attempt_retval = Reply 0\<rparr>"

definition failing_batch :: "string \<Rightarrow> upcheck_attempt" where
  "failing_batch instance_id =
     \<lparr>attempt_details =
        Reply [[\<lparr>DetailsInstanceId = instance_id, PrivateIpAddress = Some ''10.0.0.7'',
                 PublicIpAddress = None\<rparr>]],
      attempt_retval = Reply 1\<rparr>"

definition behind_target_group :: "autoscaling_group \<Rightarrow> autoscaling_group" where
  "behind_target_group g = g\<lparr>TargetGroupARNs := [''arn:web-tg'']\<rparr>"

definition all_healthy :: "autoscaling_group \<Rightarrow> targetgroup_poll" where
  "all_healthy g =
     \<lparr>tg_target_health =
        Reply (map (\<lambda>i. \<lparr>TargetId = InstanceId i, TargetHealthState = ''healthy''\<rparr>)
                 (Instances g)),
      tg_groups = Reply [g]\<rparr>"

definition refusing_answers :: answers where
  "refusing_answers =
     \<lparr>initial_groups = Reply [behind_target_group (fleet 2 2 two_old)],
      expand_response = Reply 200, force_resume_response = Reply 200,
      suspend_response = Reply 200,
      settled_groups = Reply [behind_target_group (fleet 3 2 two_old)],
      baseline_polls = [steady (behind_target_group (fleet 3 2 two_old))],
      loadbalancer_baseline_polls = (\<lambda>name. []),
      targetgroup_baseline_polls =
        (\<lambda>name. [all_healthy (behind_target_group (fleet 3 2 two_old))]),
      rollout_groups = Reply [behind_target_group (fleet 3 2 two_old)],
      bump_response = Reply 200,
      rounds = (\<lambda>i. (calm_round (behind_target_group
                                   (fleet 3 3 (two_old @ [member ''i-c'' ''Healthy''])))
                        200)
                     \<lparr>targetgroup_attach_polls :=
                        (\<lambda>name. [all_healthy (behind_target_group
                                     (fleet 3 3 (two_old @ [member ''i-c'' ''Healthy''])))]),
                      deregister_targetgroup_response := (\<lambda>name. Reply 500)\<rparr>),
      loadbalancer_detach_polls = (\<lambda>name. []), targetgroup_detach_polls = (\<lambda>name. []),
      restore_capacity_response = Reply 200, resume_response = Reply 200,
      shrink_response = Reply 200\<rparr>"

section \<open>Facts about the helper loops\<close>

lemma fold_append_if:
  "fold (\<lambda>x acc. if P x then acc @ [f x] else acc) xs ys = ys @ map f (filter P xs)"
  by (induction xs arbitrary: ys) simp_all

lemma fold_append_all: "fold (\<lambda>x acc. acc @ [f x]) xs ys = ys @ map f xs"
  by (induction xs arbitrary: ys) simp_all

lemma fold_count_if:
  "fold (\<lambda>x (n::nat). if P x then n + 1 else n) xs k = k + length (filter P xs)"
  by (induction xs arbitrary: k) simp_all

lemma healthy_instances_filter:
  "get_autoscaler_healthy_instances g = filter (\<lambda>i. HealthStatus i = ''Healthy'') (Instances g)"
  using fold_append_if [of "\<lambda>i. HealthStatus i = ''Healthy''" "\<lambda>i. i" "Instances g" "[]"]
  by (simp add: get_autoscaler_healthy_instances_def)

lemma healthy_target_ids_filter:
  "healthy_target_ids ds = map TargetId (filter (\<lambda>d. TargetHealthState d = ''healthy'') ds)"
  using fold_append_if [of "\<lambda>d. TargetHealthState d = ''healthy''" TargetId ds "[]"]
  by (simp add: healthy_target_ids_def)

lemma only_healthy_filter:
  "flatten_instance_health_array_from_loadbalancer_only_healthy ss =
     map StateInstanceId (filter (\<lambda>s. State s = ''InService'') ss)"
  using fold_append_if [of "\<lambda>s. State s = ''InService''" StateInstanceId ss "[]"]
  by (simp add: flatten_instance_health_array_from_loadbalancer_only_healthy_def)

lemma target_group_ids_map: "get_instance_ids_of_target_group ds = map TargetId ds"
  using fold_append_all [of TargetId ds "[]"]
  by (simp add: get_instance_ids_of_target_group_def)

lemma flatten_ids_map: "flatten_instance_health_array_from_loadbalancer xs = map InstanceId xs"
  using fold_append_all [of InstanceId xs "[]"]
  by (simp add: flatten_instance_health_array_from_loadbalancer_def)

lemma count_successes_filter:
  "count_successes xs flat = length (filter (\<lambda>i. InstanceId i \<in> set flat) xs)"
  using fold_count_if [of "\<lambda>i. InstanceId i \<in> set flat" xs 0]
  by (simp add: count_successes_def)

lemma count_failures_filter:
  "count_failures ids attached = length (filter (\<lambda>i. i \<in> set attached) ids)"
  using fold_count_if [of "\<lambda>i. i \<in> set attached" ids 0]
  by (simp add: count_failures_def)

lemma found_in_fold:
  "fold (\<lambda>y found. if InstanceId y = InstanceId x then True else found) ys b
     = (b \<or> InstanceId x \<in> InstanceId ` set ys)"
  by (induction ys arbitrary: b) auto

lemma found_in_iff: "found_in x ys \<longleftrightarrow> InstanceId x \<in> InstanceId ` set ys"
  by (simp add: found_in_def found_in_fold)

lemma find_new_filter:
  "find_aws_instances_in_first_list_but_not_in_second array_one array_two =
     filter (\<lambda>i. InstanceId i \<notin> InstanceId ` set array_two) array_one"
  using fold_append_if [of "\<lambda>i. \<not> found_in i array_two" "\<lambda>i. i" array_one "[]"]
  by (simp add: find_aws_instances_in_first_list_but_not_in_second_def found_in_iff)

lemma filter_full_length:
  "length xs \<le> length (filter P xs) \<longleftrightarrow> (\<forall>x \<in> set xs. P x)"
proof
  assume a: "length xs \<le> length (filter P xs)"
  have "length (filter P xs) + length (filter (\<lambda>x. \<not> P x) xs) = length xs"
    by (rule sum_length_filter_compl)
  with a have "length (filter (\<lambda>x. \<not> P x) xs) = 0" by linarith
  then have "filter (\<lambda>x. \<not> P x) xs = []" by (simp only: length_0_conv)
  then show "\<forall>x \<in> set xs. P x" by (simp add: filter_empty_conv)
next
  assume "\<forall>x \<in> set xs. P x"
  then have "filter P xs = xs" by (simp add: filter_id_conv)
  then show "length xs \<le> length (filter P xs)" by simp
qed

lemma attachment_complete_iff:
  "attachment_complete g flat \<longleftrightarrow>
     (\<forall>i \<in> set (get_autoscaler_healthy_instances g). InstanceId i \<in> set flat) \<and>
     DesiredCapacity g = int (length (get_autoscaler_healthy_instances g))"
proof -
  let ?xs = "get_autoscaler_healthy_instances g"
  let ?P = "\<lambda>i. InstanceId i \<in> set flat"
  have same: "(\<forall>i \<in> set ?xs. ?P i) \<Longrightarrow> filter ?P ?xs = ?xs"
    by (simp add: filter_id_conv)
  show ?thesis
    unfolding attachment_complete_def Let_def count_successes_filter filter_full_length
    using same by auto
qed

lemma poll_until_returns:
  "poll_until body polls = Inr v \<Longrightarrow>
     \<exists>k < length polls. body (polls ! k) = Inr (Some v) \<and> (\<forall>j < k. body (polls ! j) = Inr None)"
proof (induction polls)
  case Nil
  then show ?case by simp
next
  case (Cons poll polls)
  show ?case
  proof (cases "body poll")
    case (Inl e)
    with Cons.prems show ?thesis by simp
  next
    case (Inr r)
    show ?thesis
    proof (cases r)
      case (Some w)
      with Inr Cons.prems have "body ((poll # polls) ! 0) = Inr (Some v)" by simp
      then show ?thesis by fastforce
    next
      case None
      with Inr Cons.prems have "poll_until body polls = Inr v" by simp
      from Cons.IH [OF this] obtain k where k: "k < length polls"
        "body (polls ! k) = Inr (Some v)" "\<forall>j < k. body (polls ! j) = Inr None"
        by blast
      have "\<forall>j < Suc k. body ((poll # polls) ! j) = Inr None"
      proof (intro allI impI)
        fix j assume "j < Suc k"
        then show "body ((poll # polls) ! j) = Inr None"
          using k(3) None Inr by (cases j) auto
      qed
      with k(1,2) have "Suc k < length (poll # polls) \<and>
          body ((poll # polls) ! Suc k) = Inr (Some v) \<and>
          (\<forall>j < Suc k. body ((poll # polls) ! j) = Inr None)"
        by simp
      then show ?thesis by blast
    qed
  qed
qed

lemma no_failures_iff: "count_failures ids attached = 0 \<longleftrightarrow> set ids \<inter> set attached = {}"
  by (auto simp: count_failures_filter filter_empty_conv)

lemma loadbalancer_detachment_pass_cases:
  "loadbalancer_detachment_pass ids poll = Inr r \<Longrightarrow>
     \<exists>b bs. poll = Reply (b # bs) \<and>
       (r = Some () \<longleftrightarrow> set ids \<inter> set (LoadBalancerInstances b) = {})"
  by (cases poll rule: get_load_balancer.cases)
     (auto simp: loadbalancer_detachment_pass_def no_failures_iff
                 get_instance_ids_of_load_balancer_def Let_def split: if_splits)

lemma targetgroup_detachment_pass_cases:
  "targetgroup_detachment_pass ids poll = Inr r \<Longrightarrow>
     \<exists>ds. poll = Reply ds \<and> (r = Some () \<longleftrightarrow> set ids \<inter> TargetId ` set ds = {})"
  by (cases poll)
     (auto simp: targetgroup_detachment_pass_def no_failures_iff
                 target_group_ids_map Let_def split: if_splits)

section \<open>Claims\<close>

text \<open>
  C8. \<^verbatim>\<open>find_aws_instances_in_first_list_but_not_in_second\<close>, called with the current
  healthy members first and the previous ones second, returns exactly the instances of the
  current list whose \<^verbatim>\<open>InstanceId\<close> is the id of no instance of the previous list, in
  the order of the current list. The result is empty if and only if every id of the current
  list is an id of the previous list. Its result depends on its two arguments only, and
  applying it again to its own result (against the same previous list) changes nothing.
\<close>

theorem newly_appeared_is_difference_by_id:
  "find_aws_instances_in_first_list_but_not_in_second current previous =
     filter (\<lambda>i. InstanceId i \<notin> InstanceId ` set previous) current
   \<and> (find_aws_instances_in_first_list_but_not_in_second current previous = []
        \<longleftrightarrow> InstanceId ` set current \<subseteq> InstanceId ` set previous)
   \<and> find_aws_instances_in_first_list_but_not_in_second
        (find_aws_instances_in_first_list_but_not_in_second current previous) previous =
      find_aws_instances_in_first_list_but_not_in_second current previous"
  by (auto simp: find_new_filter filter_empty_conv)

text \<open>
  C7. Both detachment waits return only in a pass whose membership snapshot of the traffic
  source holds none of the ids they were given, and every pass before that one listed at
  least one of them. For a target group the snapshot is every target listed, whatever
  state is reported for it.
\<close>

theorem detachment_wait_returns_only_when_absent:
  "(wait_for_instances_to_detach_from_loadbalancer instance_ids lb_polls = Inr () \<longrightarrow>
      (\<exists>k < length lb_polls.
         (\<exists>b bs. lb_polls ! k = Reply (b # bs) \<and>
                  set instance_ids \<inter> set (LoadBalancerInstances b) = {}) \<and>
         (\<forall>j < k. \<exists>c cs. lb_polls ! j = Reply (c # cs) \<and>
                  set instance_ids \<inter> set (LoadBalancerInstances c) \<noteq> {})))
   \<and> (wait_for_instances_to_detach_from_target_group instance_ids tg_polls = Inr () \<longrightarrow>
      (\<exists>k < length tg_polls.
         (\<exists>ds. tg_polls ! k = Reply ds \<and> set instance_ids \<inter> TargetId ` set ds = {}) \<and>
         (\<forall>j < k. \<exists>es. tg_polls ! j = Reply es \<and>
                  set instance_ids \<inter> TargetId ` set es \<noteq> {})))"
proof (intro conjI impI)
  assume "wait_for_instances_to_detach_from_loadbalancer instance_ids lb_polls = Inr ()"
  then have "poll_until (loadbalancer_detachment_pass instance_ids) lb_polls = Inr ()"
    by (simp add: wait_for_instances_to_detach_from_loadbalancer_def)
  from poll_until_returns [OF this] obtain k where k: "k < length lb_polls"
      "loadbalancer_detachment_pass instance_ids (lb_polls ! k) = Inr (Some ())"
      "\<forall>j < k. loadbalancer_detachment_pass instance_ids (lb_polls ! j) = Inr None"
    by blast
  have now: "\<exists>b bs. lb_polls ! k = Reply (b # bs) \<and>
          set instance_ids \<inter> set (LoadBalancerInstances b) = {}"
    using loadbalancer_detachment_pass_cases [OF k(2)] by simp
  have earlier: "\<forall>j < k. \<exists>c cs. lb_polls ! j = Reply (c # cs) \<and>
          set instance_ids \<inter> set (LoadBalancerInstances c) \<noteq> {}"
  proof (intro allI impI)
    fix j assume "j < k"
    with k(3) have "loadbalancer_detachment_pass instance_ids (lb_polls ! j) = Inr None" by simp
    from loadbalancer_detachment_pass_cases [OF this]
    show "\<exists>c cs. lb_polls ! j = Reply (c # cs) \<and>
          set instance_ids \<inter> set (LoadBalancerInstances c) \<noteq> {}" by simp
  qed
  show "\<exists>k < length lb_polls.
         (\<exists>b bs. lb_polls ! k = Reply (b # bs) \<and>
                  set instance_ids \<inter> set (LoadBalancerInstances b) = {}) \<and>
         (\<forall>j < k. \<exists>c cs. lb_polls ! j = Reply (c # cs) \<and>
                  set instance_ids \<inter> set (LoadBalancerInstances c) \<noteq> {})"
  proof (intro exI [of _ k] conjI)
    show "k < length lb_polls" by (rule k(1))
    show "\<exists>b bs. lb_polls ! k = Reply (b # bs) \<and>
          set instance_ids \<inter> set (LoadBalancerInstances b) = {}" by (rule now)
    show "\<forall>j < k. \<exists>c cs. lb_polls ! j = Reply (c # cs) \<and>
          set instance_ids \<inter> set (LoadBalancerInstances c) \<noteq> {}" by (rule earlier)
  qed
next
  assume "wait_for_instances_to_detach_from_target_group instance_ids tg_polls = Inr ()"
  then have "poll_until (targetgroup_detachment_pass instance_ids) tg_polls = Inr ()"
    by (simp add: wait_for_instances_to_detach_from_target_group_def)
  from poll_until_returns [OF this] obtain k where k: "k < length tg_polls"
      "targetgroup_detachment_pass instance_ids (tg_polls ! k) = Inr (Some ())"
      "\<forall>j < k. targetgroup_detachment_pass instance_ids (tg_polls ! j) = Inr None"
    by blast
  have now: "\<exists>ds. tg_polls ! k = Reply ds \<and> set instance_ids \<inter> TargetId ` set ds = {}"
    using targetgroup_detachment_pass_cases [OF k(2)] by simp
  have earlier: "\<forall>j < k. \<exists>es. tg_polls ! j = Reply es \<and>
          set instance_ids \<inter> TargetId ` set es \<noteq> {}"
  proof (intro allI impI)
    fix j assume "j < k"
    with k(3) have "targetgroup_detachment_pass instance_ids (tg_polls ! j) = Inr None" by simp
    from targetgroup_detachment_pass_cases [OF this]
    show "\<exists>es. tg_polls ! j = Reply es \<and> set instance_ids \<inter> TargetId ` set es \<noteq> {}"
      by simp
  qed
  show "\<exists>k < length tg_polls.
         (\<exists>ds. tg_polls ! k = Reply ds \<and> set instance_ids \<inter> TargetId ` set ds = {}) \<and>
         (\<forall>j < k. \<exists>es. tg_polls ! j = Reply es \<and>
                  set instance_ids \<inter> TargetId ` set es \<noteq> {})"
  proof (intro exI [of _ k] conjI)
    show "k < length tg_polls" by (rule k(1))
    show "\<exists>ds. tg_polls ! k = Reply ds \<and> set instance_ids \<inter> TargetId ` set ds = {}"
      by (rule now)
    show "\<forall>j < k. \<exists>es. tg_polls ! j = Reply es \<and>
          set instance_ids \<inter> TargetId ` set es \<noteq> {}" by (rule earlier)
  qed
qed

theorem detachment_wait_witness:
  "wait_for_instances_to_detach_from_loadbalancer [''i-old''] draining_polls_lb = Inr ()
   \<and> wait_for_instances_to_detach_from_target_group [''i-old''] draining_polls_tg = Inr ()
   \<and> (\<exists>k < length draining_polls_lb.
         (\<exists>b bs. draining_polls_lb ! k = Reply (b # bs) \<and>
                  set [''i-old''] \<inter> set (LoadBalancerInstances b) = {}) \<and>
         (\<forall>j < k. \<exists>c cs. draining_polls_lb ! j = Reply (c # cs) \<and>
                  set [''i-old''] \<inter> set (LoadBalancerInstances c) \<noteq> {}))
   \<and> (\<exists>k < length draining_polls_tg.
         (\<exists>ds. draining_polls_tg ! k = Reply ds \<and> set [''i-old''] \<inter> TargetId ` set ds = {}) \<and>
         (\<forall>j < k. \<exists>es. draining_polls_tg ! j = Reply es \<and>
                  set [''i-old''] \<inter> TargetId ` set es \<noteq> {}))"
proof -
  have lb: "wait_for_instances_to_detach_from_loadbalancer [''i-old''] draining_polls_lb = Inr ()"
    by (simp add: wait_for_instances_to_detach_from_loadbalancer_def draining_polls_lb_def
          loadbalancer_detachment_pass_def get_instance_ids_of_load_balancer_def
          count_failures_def)
  have tg: "wait_for_instances_to_detach_from_target_group [''i-old''] draining_polls_tg = Inr ()"
    by (simp add: wait_for_instances_to_detach_from_target_group_def draining_polls_tg_def
          targetgroup_detachment_pass_def get_instance_ids_of_target_group_def
          count_failures_def)
  note both = detachment_wait_returns_only_when_absent
         [of "[''i-old'']" draining_polls_lb draining_polls_tg]
  show ?thesis
    by (intro conjI)
       (rule lb, rule tg, rule both [THEN conjunct1, THEN mp, OF lb],
        rule both [THEN conjunct2, THEN mp, OF tg])
qed

lemma attachment_complete_members:
  "attachment_complete g flat \<longleftrightarrow>
     (\<forall>i \<in> set (Instances g). HealthStatus i = ''Healthy'' \<longrightarrow> InstanceId i \<in> set flat) \<and>
     int (length (filter (\<lambda>i. HealthStatus i = ''Healthy'' \<and> InstanceId i \<in> set flat)
                    (Instances g))) = DesiredCapacity g"
proof -
  let ?H = "\<lambda>i. HealthStatus i = ''Healthy''"
  let ?F = "\<lambda>i. InstanceId i \<in> set flat"
  have both: "(\<forall>i \<in> set (Instances g). ?H i \<longrightarrow> ?F i) \<Longrightarrow>
                filter (\<lambda>i. ?H i \<and> ?F i) (Instances g) = filter ?H (Instances g)"
    by (rule filter_cong) auto
  show ?thesis
    unfolding attachment_complete_iff healthy_instances_filter
    using both by auto
qed

lemma in_healthy_target_ids:
  "InstanceId i \<in> set (healthy_target_ids ds) \<longleftrightarrow> healthy_in_target_group ds i"
  by (force simp: healthy_target_ids_filter healthy_in_target_group_def image_iff)

lemma in_only_healthy:
  "InstanceId i \<in> set (flatten_instance_health_array_from_loadbalancer_only_healthy ss)
     \<longleftrightarrow> in_service_in_load_balancer ss i"
  by (force simp: only_healthy_filter in_service_in_load_balancer_def image_iff)

lemma targetgroup_attachment_pass_done:
  "targetgroup_attachment_pass poll = Inr (Some ()) \<Longrightarrow>
     \<exists>ds g gs. tg_target_health poll = Reply ds \<and> tg_groups poll = Reply (g # gs) \<and>
       (\<forall>i \<in> set (Instances g). HealthStatus i = ''Healthy'' \<longrightarrow> healthy_in_target_group ds i) \<and>
       int (length (filter (\<lambda>i. HealthStatus i = ''Healthy'' \<and> healthy_in_target_group ds i)
                      (Instances g))) = DesiredCapacity g"
proof -
  assume a: "targetgroup_attachment_pass poll = Inr (Some ())"
  then obtain ds where ds: "tg_target_health poll = Reply ds"
    by (cases "tg_target_health poll") (auto simp: targetgroup_attachment_pass_def)
  from a ds obtain g gs where g: "tg_groups poll = Reply (g # gs)"
    by (cases "tg_groups poll" rule: get_autoscaling_group.cases)
       (auto simp: targetgroup_attachment_pass_def)
  from a ds g have "attachment_complete g (healthy_target_ids ds)"
    by (auto simp: targetgroup_attachment_pass_def split: if_splits)
  then show ?thesis
    using ds g by (simp add: attachment_complete_members in_healthy_target_ids)
qed

lemma loadbalancer_attachment_pass_done:
  "loadbalancer_attachment_pass poll = Inr (Some ()) \<Longrightarrow>
     \<exists>ss g gs. lb_instance_health poll = Reply ss \<and> lb_groups poll = Reply (g # gs) \<and>
       (\<forall>i \<in> set (Instances g). HealthStatus i = ''Healthy'' \<longrightarrow> in_service_in_load_balancer ss i) \<and>
       int (length (filter (\<lambda>i. HealthStatus i = ''Healthy'' \<and> in_service_in_load_balancer ss i)
                      (Instances g))) = DesiredCapacity g"
proof -
  assume a: "loadbalancer_attachment_pass poll = Inr (Some ())"
  then obtain b where b: "get_load_balancer (lb_descriptions poll) = Inr b"
    by (cases "get_load_balancer (lb_descriptions poll)")
       (auto simp: loadbalancer_attachment_pass_def)
  from a b obtain ss where ss: "lb_instance_health poll = Reply ss"
    by (cases "lb_instance_health poll") (auto simp: loadbalancer_attachment_pass_def)
  from a b ss obtain g gs where g: "lb_groups poll = Reply (g # gs)"
    by (cases "lb_groups poll" rule: get_autoscaling_group.cases)
       (auto simp: loadbalancer_attachment_pass_def)
  from a b ss g have "attachment_complete g
        (flatten_instance_health_array_from_loadbalancer_only_healthy ss)"
    by (auto simp: loadbalancer_attachment_pass_def split: if_splits)
  then show ?thesis
    using ss g by (simp add: attachment_complete_members in_only_healthy)
qed

lemma sample_tg: "wait_for_complete_targetgroup_autoscaler_attachment attaching_polls_tg = Inr ()"
    by (simp add: wait_for_complete_targetgroup_autoscaler_attachment_def attaching_polls_tg_def
          targetgroup_attachment_pass_def healthy_target_ids_def attachment_complete_def
          get_autoscaler_healthy_instances_def count_successes_def fleet_def member_def)

lemma sample_lb: "wait_for_complete_loadbalancer_autoscaler_attachment attaching_polls_lb = Inr ()"
    by (simp add: wait_for_complete_loadbalancer_autoscaler_attachment_def attaching_polls_lb_def
          loadbalancer_attachment_pass_def
          flatten_instance_health_array_from_loadbalancer_only_healthy_def
          attachment_complete_def get_autoscaler_healthy_instances_def count_successes_def
          fleet_def member_def)


text \<open>
  C2. Both full-attachment waits return only in a pass in which every fleet member that
  the freshly fetched description reports \<^verbatim>\<open>Healthy\<close> is in service in the traffic
  source, and the number of healthy members in service equals the desired capacity of that
  same description; no earlier pass met the exit test.
\<close>

theorem attachment_wait_returns_only_when_fully_attached:
  "(wait_for_complete_targetgroup_autoscaler_attachment tg_polls = Inr () \<longrightarrow>
      (\<exists>k < length tg_polls.
         (\<exists>ds g gs. tg_target_health (tg_polls ! k) = Reply ds \<and>
            tg_groups (tg_polls ! k) = Reply (g # gs) \<and>
            (\<forall>i \<in> set (Instances g).
               HealthStatus i = ''Healthy'' \<longrightarrow> healthy_in_target_group ds i) \<and>
            int (length (filter (\<lambda>i. HealthStatus i = ''Healthy'' \<and> healthy_in_target_group ds i)
                           (Instances g))) = DesiredCapacity g) \<and>
         (\<forall>j < k. targetgroup_attachment_pass (tg_polls ! j) = Inr None)))
   \<and> (wait_for_complete_loadbalancer_autoscaler_attachment lb_polls = Inr () \<longrightarrow>
      (\<exists>k < length lb_polls.
         (\<exists>ss g gs. lb_instance_health (lb_polls ! k) = Reply ss \<and>
            lb_groups (lb_polls ! k) = Reply (g # gs) \<and>
            (\<forall>i \<in> set (Instances g).
               HealthStatus i = ''Healthy'' \<longrightarrow> in_service_in_load_balancer ss i) \<and>
            int (length (filter (\<lambda>i. HealthStatus i = ''Healthy'' \<and> in_service_in_load_balancer ss i)
                           (Instances g))) = DesiredCapacity g) \<and>
         (\<forall>j < k. loadbalancer_attachment_pass (lb_polls ! j) = Inr None)))"
proof (intro conjI impI)
  assume "wait_for_complete_targetgroup_autoscaler_attachment tg_polls = Inr ()"
  then have "poll_until targetgroup_attachment_pass tg_polls = Inr ()"
    by (simp add: wait_for_complete_targetgroup_autoscaler_attachment_def)
  from poll_until_returns [OF this] obtain k where k: "k < length tg_polls"
      "targetgroup_attachment_pass (tg_polls ! k) = Inr (Some ())"
      "\<forall>j < k. targetgroup_attachment_pass (tg_polls ! j) = Inr None"
    by blast
  show "\<exists>k < length tg_polls.
         (\<exists>ds g gs. tg_target_health (tg_polls ! k) = Reply ds \<and>
            tg_groups (tg_polls ! k) = Reply (g # gs) \<and>
            (\<forall>i \<in> set (Instances g).
               HealthStatus i = ''Healthy'' \<longrightarrow> healthy_in_target_group ds i) \<and>
            int (length (filter (\<lambda>i. HealthStatus i = ''Healthy'' \<and> healthy_in_target_group ds i)
                           (Instances g))) = DesiredCapacity g) \<and>
         (\<forall>j < k. targetgroup_attachment_pass (tg_polls ! j) = Inr None)"
    by (intro exI [of _ k] conjI)
       (rule k(1), rule targetgroup_attachment_pass_done [OF k(2)], rule k(3))
next
  assume "wait_for_complete_loadbalancer_autoscaler_attachment lb_polls = Inr ()"
  then have "poll_until loadbalancer_attachment_pass lb_polls = Inr ()"
    by (simp add: wait_for_complete_loadbalancer_autoscaler_attachment_def)
  from poll_until_returns [OF this] obtain k where k: "k < length lb_polls"
      "loadbalancer_attachment_pass (lb_polls ! k) = Inr (Some ())"
      "\<forall>j < k. loadbalancer_attachment_pass (lb_polls ! j) = Inr None"
    by blast
  show "\<exists>k < length lb_polls.
         (\<exists>ss g gs. lb_instance_health (lb_polls ! k) = Reply ss \<and>
            lb_groups (lb_polls ! k) = Reply (g # gs) \<and>
            (\<forall>i \<in> set (Instances g).
               HealthStatus i = ''Healthy'' \<longrightarrow> in_service_in_load_balancer ss i) \<and>
            int (length (filter (\<lambda>i. HealthStatus i = ''Healthy'' \<and> in_service_in_load_balancer ss i)
                           (Instances g))) = DesiredCapacity g) \<and>
         (\<forall>j < k. loadbalancer_attachment_pass (lb_polls ! j) = Inr None)"
    by (intro exI [of _ k] conjI)
       (rule k(1), rule loadbalancer_attachment_pass_done [OF k(2)], rule k(3))
qed

theorem attachment_wait_witness:
  "wait_for_complete_targetgroup_autoscaler_attachment attaching_polls_tg = Inr ()
   \<and> wait_for_complete_loadbalancer_autoscaler_attachment attaching_polls_lb = Inr ()
   \<and> (\<exists>k < length attaching_polls_tg.
         (\<exists>ds g gs. tg_target_health (attaching_polls_tg ! k) = Reply ds \<and>
            tg_groups (attaching_polls_tg ! k) = Reply (g # gs) \<and>
            (\<forall>i \<in> set (Instances g).
               HealthStatus i = ''Healthy'' \<longrightarrow> healthy_in_target_group ds i) \<and>
            int (length (filter (\<lambda>i. HealthStatus i = ''Healthy'' \<and> healthy_in_target_group ds i)
                           (Instances g))) = DesiredCapacity g) \<and>
         (\<forall>j < k. targetgroup_attachment_pass (attaching_polls_tg ! j) = Inr None))
   \<and> (\<exists>k < length attaching_polls_lb.
         (\<exists>ss g gs. lb_instance_health (attaching_polls_lb ! k) = Reply ss \<and>
            lb_groups (attaching_polls_lb ! k) = Reply (g # gs) \<and>
            (\<forall>i \<in> set (Instances g).
               HealthStatus i = ''Healthy'' \<longrightarrow> in_service_in_load_balancer ss i) \<and>
            int (length (filter (\<lambda>i. HealthStatus i = ''Healthy'' \<and> in_service_in_load_balancer ss i)
                           (Instances g))) = DesiredCapacity g) \<and>
         (\<forall>j < k. loadbalancer_attachment_pass (attaching_polls_lb ! j) = Inr None))"
  by (intro conjI)
     (rule sample_tg, rule sample_lb,
      rule attachment_wait_returns_only_when_fully_attached
             [of attaching_polls_tg attaching_polls_lb, THEN conjunct1, THEN mp, OF sample_tg],
      rule attachment_wait_returns_only_when_fully_attached
             [of attaching_polls_tg attaching_polls_lb, THEN conjunct2, THEN mp, OF sample_lb])

lemma healthy_desired_pass_done:
  "healthy_desired_pass desired_capacity poll = Inr (Some ()) \<Longrightarrow>
     \<exists>counted others rechecked.
       count_groups poll = Reply (counted # others) \<and>
       int (get_number_of_autoscaler_healthy_instances counted) = desired_capacity \<and>
       scaling_groups poll = Reply [rechecked] \<and>
       int (get_number_of_autoscaler_healthy_instances rechecked) = DesiredCapacity rechecked"
proof -
  assume a: "healthy_desired_pass desired_capacity poll = Inr (Some ())"
  then obtain counted others where c: "count_groups poll = Reply (counted # others)"
    by (cases "count_groups poll" rule: get_autoscaling_group.cases)
       (auto simp: healthy_desired_pass_def)
  from a c have n: "int (get_number_of_autoscaler_healthy_instances counted) = desired_capacity"
    by (auto simp: healthy_desired_pass_def Let_def split: if_splits)
  from a c n have s: "check_if_autoscaler_is_scaling (scaling_groups poll) = Inr False"
    by (auto simp: healthy_desired_pass_def Let_def split: if_splits sum.splits)
  then obtain rechecked where r: "scaling_groups poll = Reply [rechecked]"
    by (cases "scaling_groups poll" rule: check_if_autoscaler_is_scaling.cases) auto
  from s r have "int (get_number_of_autoscaler_healthy_instances rechecked)
                   = DesiredCapacity rechecked"
    by (auto simp: Let_def split: if_splits)
  with c n r show ?thesis by simp
qed

lemma sample_settled:
  "wait_for_autoscaler_to_have_healthy_desired_instances (ByName ''web'')
     (Reply [second_lookup]) settled_polls = Inr ()"
  by (simp add: wait_for_autoscaler_to_have_healthy_desired_instances_def settled_polls_def
        healthy_desired_pass_def get_number_of_autoscaler_healthy_instances_def
        get_autoscaler_healthy_instances_def first_lookup_def second_lookup_def
        fleet_def member_def)


text \<open>
  C10, as amended. \<^verbatim>\<open>wait_for_autoscaler_to_have_healthy_desired_instances\<close> reads the
  desired capacity once, from the description it holds at entry, and returns only in a
  pass whose first lookup counts as many healthy members as that frozen value and whose
  second lookup (made by \<^verbatim>\<open>check_if_autoscaler_is_scaling\<close>, a separate call) counts
  as many healthy members as the desired capacity that second lookup itself reports. The
  two lookups of a pass are independent reads, so the two counts need not be the same
  number.
\<close>

theorem baseline_wait_returns_only_when_both_lookups_agree:
  "wait_for_autoscaler_to_have_healthy_desired_instances name_or_definition entry polls = Inr ()
   \<Longrightarrow> \<exists>frozen. entry_description name_or_definition entry = Inr frozen \<and>
        (\<exists>k < length polls.
           (\<exists>counted others rechecked.
              count_groups (polls ! k) = Reply (counted # others) \<and>
              int (get_number_of_autoscaler_healthy_instances counted) = DesiredCapacity frozen \<and>
              scaling_groups (polls ! k) = Reply [rechecked] \<and>
              int (get_number_of_autoscaler_healthy_instances rechecked)
                = DesiredCapacity rechecked) \<and>
           (\<forall>j < k. healthy_desired_pass (DesiredCapacity frozen) (polls ! j) = Inr None))"
proof -
  assume a: "wait_for_autoscaler_to_have_healthy_desired_instances
               name_or_definition entry polls = Inr ()"
  then obtain frozen where f: "entry_description name_or_definition entry = Inr frozen"
    by (cases "entry_description name_or_definition entry")
       (auto simp: wait_for_autoscaler_to_have_healthy_desired_instances_def)
  with a have "poll_until (healthy_desired_pass (DesiredCapacity frozen)) polls = Inr ()"
    by (simp add: wait_for_autoscaler_to_have_healthy_desired_instances_def)
  from poll_until_returns [OF this] obtain k where k: "k < length polls"
      "healthy_desired_pass (DesiredCapacity frozen) (polls ! k) = Inr (Some ())"
      "\<forall>j < k. healthy_desired_pass (DesiredCapacity frozen) (polls ! j) = Inr None"
    by blast
  have "\<exists>k < length polls.
           (\<exists>counted others rechecked.
              count_groups (polls ! k) = Reply (counted # others) \<and>
              int (get_number_of_autoscaler_healthy_instances counted) = DesiredCapacity frozen \<and>
              scaling_groups (polls ! k) = Reply [rechecked] \<and>
              int (get_number_of_autoscaler_healthy_instances rechecked)
                = DesiredCapacity rechecked) \<and>
           (\<forall>j < k. healthy_desired_pass (DesiredCapacity frozen) (polls ! j) = Inr None)"
    by (intro exI [of _ k] conjI)
       (rule k(1), rule healthy_desired_pass_done [OF k(2)], rule k(3))
  with f show ?thesis by (intro exI [of _ frozen] conjI)
qed

theorem baseline_wait_witness:
  "wait_for_autoscaler_to_have_healthy_desired_instances (ByName ''web'')
     (Reply [second_lookup]) settled_polls = Inr ()
   \<and> (\<exists>frozen. entry_description (ByName ''web'') (Reply [second_lookup]) = Inr frozen \<and>
        (\<exists>k < length settled_polls.
           (\<exists>counted others rechecked.
              count_groups (settled_polls ! k) = Reply (counted # others) \<and>
              int (get_number_of_autoscaler_healthy_instances counted) = DesiredCapacity frozen \<and>
              scaling_groups (settled_polls ! k) = Reply [rechecked] \<and>
              int (get_number_of_autoscaler_healthy_instances rechecked)
                = DesiredCapacity rechecked) \<and>
           (\<forall>j < k. healthy_desired_pass (DesiredCapacity frozen) (settled_polls ! j) = Inr None)))"
  by (intro conjI)
     (rule sample_settled,
      rule baseline_wait_returns_only_when_both_lookups_agree [OF sample_settled])

text \<open>
  C10 as stated fails: the wait entered with a frozen desired capacity of 2 returns in a
  pass whose first lookup counts 2 healthy members (desired capacity already 3) and whose
  second lookup counts 3 with desired capacity 3. Neither count equals both the frozen and
  the re-fetched desired capacity.
\<close>

theorem baseline_wait_counterexample:
  "wait_for_autoscaler_to_have_healthy_desired_instances (Definition stale_description)
     Raises [racing_poll] = Inr ()
   \<and> DesiredCapacity stale_description = 2
   \<and> count_groups racing_poll = Reply [first_lookup]
   \<and> get_number_of_autoscaler_healthy_instances first_lookup = 2
   \<and> DesiredCapacity first_lookup = 3
   \<and> scaling_groups racing_poll = Reply [second_lookup]
   \<and> get_number_of_autoscaler_healthy_instances second_lookup = 3
   \<and> DesiredCapacity second_lookup = 3"
  by (simp add: wait_for_autoscaler_to_have_healthy_desired_instances_def racing_poll_def
        healthy_desired_pass_def get_number_of_autoscaler_healthy_instances_def
        get_autoscaler_healthy_instances_def first_lookup_def second_lookup_def
        stale_description_def fleet_def member_def)

section \<open>Facts about traces and steps\<close>

lemma seq_pair [simp]:
  "seq (t, Inl e) f = (t, Inl e)"
  "seq (t, Inr v) f = (t @ fst (f v), snd (f v))"
  by (simp_all add: seq_def)

lemma fst_seq:
  "fst (seq m f) = fst m @ (case snd m of Inl e \<Rightarrow> [] | Inr v \<Rightarrow> fst (f v))"
  by (cases "snd m") (simp_all add: seq_def)

lemma snd_seq:
  "snd (seq m f) = (case snd m of Inl e \<Rightarrow> Inl e | Inr v \<Rightarrow> snd (f v))"
  by (cases "snd m") (simp_all add: seq_def)

lemma seq_returns:
  "snd (seq m f) = Inr w \<longleftrightarrow> (\<exists>v. snd m = Inr v \<and> snd (f v) = Inr w)"
  by (cases "snd m") (simp_all add: seq_def)

lemma reading_simps [simp]: "fst (reading r) = []" "snd (reading r) = r"
  by (simp_all add: reading_def)

lemma collect_simps [simp]:
  "collect p [] = []"
  "collect p (x # t) = p x @ collect p t"
  "collect p (t @ u) = collect p t @ collect p u"
  by (simp_all add: collect_def)

lemma collect_seq:
  "collect p (fst (seq m f)) =
     collect p (fst m) @ (case snd m of Inl e \<Rightarrow> [] | Inr v \<Rightarrow> collect p (fst (f v)))"
  by (cases "snd m") (simp_all add: seq_def)

lemma collect_seq_quiet:
  "collect p (fst m) = [] \<Longrightarrow> (\<And>v. collect p (fst (f v)) = []) \<Longrightarrow>
     collect p (fst (seq m f)) = []"
  by (simp add: collect_seq split: sum.splits)

lemma collect_for_each_quiet:
  "(\<And>x. collect p (fst (body x)) = []) \<Longrightarrow> collect p (fst (for_each body xs)) = []"
  by (induction xs) (simp_all add: collect_seq_quiet)

lemma client_simps [simp]:
  "fst (client c r) = [(c, r)]"
  "snd (client c r) = (case r of Raises \<Rightarrow> Inl (Raised BotoError) | Reply code \<Rightarrow> Inr code)"
  by (cases r; simp add: client_def)+

lemma wait_for_all_attachments_quiet [simp]:
  "collect p (fst (wait_for_all_attachments g lbs tgs)) = []"
  unfolding wait_for_all_attachments_def
  by (intro collect_seq_quiet collect_for_each_quiet) simp_all

lemma wait_until_out_of_all_quiet [simp]:
  "collect p (fst (wait_until_out_of_all g i a)) = []"
  unfolding wait_until_out_of_all_def
  by (intro collect_seq_quiet collect_for_each_quiet) simp_all

lemma verify_detachment_quiet [simp]:
  "collect p (fst (verify_detachment opts env g kill)) = []"
  unfolding verify_detachment_def Let_def
  by (auto intro!: collect_seq_quiet collect_for_each_quiet)

lemma deregister_from_all_quiet:
  assumes "\<And>i n r. p (DeregisterFromLoadBalancer i n, r) = []"
      and "\<And>i n r. p (DeregisterTargets i n, r) = []"
  shows "collect p (fst (deregister_from_all g i a)) = []"
  unfolding deregister_from_all_def deregister_instance_from_load_balancer_def
    deregister_instance_from_target_group_def
  by (intro collect_seq_quiet collect_for_each_quiet) (simp_all add: assms)

lemma check_new_instance_quiet:
  assumes "\<And>h i r. p (ShellCommand h i, r) = []"
  shows "collect p (fst (check_new_instance n a s)) = []"
  by (simp add: check_new_instance_def assms split: sum.splits option.splits reply.splits)

lemma check_batch_quiet:
  assumes "\<And>h i r. p (ShellCommand h i, r) = []"
  shows "collect p (fst (check_batch b ns s)) = []"
  by (induction ns arbitrary: s) (simp_all add: Let_def check_new_instance_quiet assms)

lemma external_health_up_check_quiet:
  assumes "\<And>h i r. p (ShellCommand h i, r) = []"
  shows "collect p (fst (external_health_up_check ns bs)) = []"
  by (induction bs) (simp_all add: Let_def check_batch_quiet assms)

lemma run_server_down_command_quiet:
  assumes "\<And>h i r. p (ShellCommand h i, r) = []"
  shows "collect p (fst (run_server_down_command h d r)) = []"
  by (simp add: run_server_down_command_def assms split: option.splits reply.splits)

lemma replace_and_drain_quiet:
  assumes "\<And>h i r. p (ShellCommand h i, r) = []"
      and "\<And>i n r. p (DeregisterFromLoadBalancer i n, r) = []"
      and "\<And>i n r. p (DeregisterTargets i n, r) = []"
  shows "collect p (fst (replace_and_drain opts g a i cur)) = []"
  unfolding replace_and_drain_def
  by (intro collect_seq_quiet)
     (simp_all add: assms deregister_from_all_quiet external_health_up_check_quiet
        run_server_down_command_quiet)

subsection \<open>No step leaves with status 0\<close>

lemma seq_not_zero:
  "snd m \<noteq> Inl (SystemExit 0) \<Longrightarrow> (\<And>v. snd (f v) \<noteq> Inl (SystemExit 0)) \<Longrightarrow>
     snd (seq m f) \<noteq> Inl (SystemExit 0)"
  by (cases "snd m") (simp_all add: seq_def)

lemma for_each_not_zero:
  "(\<And>x. snd (body x) \<noteq> Inl (SystemExit 0)) \<Longrightarrow>
     snd (for_each body xs) \<noteq> Inl (SystemExit 0)"
  by (induction xs) (simp_all add: seq_not_zero)

lemma sum_case_not_zero:
  "x \<noteq> Inl (SystemExit 0) \<Longrightarrow> (\<And>v. g v \<noteq> Inl (SystemExit 0)) \<Longrightarrow>
     (case x of Inl e \<Rightarrow> Inl e | Inr v \<Rightarrow> g v) \<noteq> Inl (SystemExit 0)"
  by (cases x) auto

lemma poll_until_not_zero:
  "(\<And>p. body p \<noteq> Inl (SystemExit 0)) \<Longrightarrow> poll_until body polls \<noteq> Inl (SystemExit 0)"
  by (induction polls) (auto split: sum.splits option.splits)

lemma get_autoscaling_group_not_zero [simp]:
  "get_autoscaling_group r \<noteq> Inl (SystemExit 0)"
  by (cases r rule: get_autoscaling_group.cases) simp_all

lemma get_load_balancer_not_zero [simp]: "get_load_balancer r \<noteq> Inl (SystemExit 0)"
  by (cases r rule: get_load_balancer.cases) simp_all

lemma describe_instance_not_zero [simp]: "describe_instance r \<noteq> Inl (SystemExit 0)"
  by (cases r) simp_all

lemma check_if_autoscaler_is_scaling_not_zero [simp]:
  "check_if_autoscaler_is_scaling r \<noteq> Inl (SystemExit 0)"
  by (cases r rule: check_if_autoscaler_is_scaling.cases) (simp_all add: Let_def)

lemma entry_description_not_zero [simp]: "entry_description a r \<noteq> Inl (SystemExit 0)"
  by (cases a) simp_all

lemma passes_not_zero [simp]:
  "targetgroup_attachment_pass tp \<noteq> Inl (SystemExit 0)"
  "loadbalancer_attachment_pass lp \<noteq> Inl (SystemExit 0)"
  "loadbalancer_detachment_pass ids dl \<noteq> Inl (SystemExit 0)"
  "targetgroup_detachment_pass ids dt \<noteq> Inl (SystemExit 0)"
  "healthy_desired_pass d sp \<noteq> Inl (SystemExit 0)"
  "new_instances_pass cur np \<noteq> Inl (SystemExit 0)"
  "out_of_load_balancer_pass i dl \<noteq> Inl (SystemExit 0)"
  "out_of_target_group_pass i dt \<noteq> Inl (SystemExit 0)"
  by (auto simp: targetgroup_attachment_pass_def loadbalancer_attachment_pass_def
        loadbalancer_detachment_pass_def targetgroup_detachment_pass_def
        healthy_desired_pass_def new_instances_pass_def out_of_load_balancer_pass_def
        out_of_target_group_pass_def Let_def
      split: sum.splits reply.splits if_splits)

lemma waits_not_zero [simp]:
  "wait_for_complete_targetgroup_autoscaler_attachment tps \<noteq> Inl (SystemExit 0)"
  "wait_for_complete_loadbalancer_autoscaler_attachment lps \<noteq> Inl (SystemExit 0)"
  "wait_for_instances_to_detach_from_loadbalancer ids dls \<noteq> Inl (SystemExit 0)"
  "wait_for_instances_to_detach_from_target_group ids dts \<noteq> Inl (SystemExit 0)"
  "wait_for_new_instances cur nps \<noteq> Inl (SystemExit 0)"
  "wait_until_out_of_load_balancer i dls \<noteq> Inl (SystemExit 0)"
  "wait_until_out_of_target_group i dts \<noteq> Inl (SystemExit 0)"
  by (simp_all add: wait_for_complete_targetgroup_autoscaler_attachment_def
        wait_for_complete_loadbalancer_autoscaler_attachment_def
        wait_for_instances_to_detach_from_loadbalancer_def
        wait_for_instances_to_detach_from_target_group_def wait_for_new_instances_def
        wait_until_out_of_load_balancer_def wait_until_out_of_target_group_def
        poll_until_not_zero)

lemma settle_wait_not_zero [simp]:
  "wait_for_autoscaler_to_have_healthy_desired_instances a r ps \<noteq> Inl (SystemExit 0)"
  unfolding wait_for_autoscaler_to_have_healthy_desired_instances_def
  by (intro sum_case_not_zero) (simp_all add: poll_until_not_zero)

lemma get_instances_to_skip_not_zero [simp]:
  "get_instances_to_skip xs g out \<noteq> Inl (SystemExit 0)"
  by (induction xs arbitrary: out)
     (auto simp: get_autoscaling_group_configuration_def get_instance_configuration_def Let_def
        split: sum.splits option.splits if_splits)

lemma gather_not_zero [simp]: "gather_instances_to_kill c g \<noteq> Inl (SystemExit 0)"
  by (simp add: gather_instances_to_kill_def Let_def sum_case_not_zero)

lemma client_steps_not_zero [simp]:
  "snd (update_auto_scaling_group_max_size n v r) \<noteq> Inl (SystemExit 0)"
  "snd (suspend_processes n ps r) \<noteq> Inl (SystemExit 0)"
  "snd (resume_processes n ps r) \<noteq> Inl (SystemExit 0)"
  "snd (resume_all_processes n r) \<noteq> Inl (SystemExit 0)"
  "snd (deregister_instance_from_load_balancer i n r) \<noteq> Inl (SystemExit 0)"
  "snd (deregister_instance_from_target_group i n r) \<noteq> Inl (SystemExit 0)"
  "snd (terminate_instance_in_auto_scaling_group i n b r) \<noteq> Inl (SystemExit 0)"
  "snd (set_desired_capacity n v r) \<noteq> Inl (SystemExit 0)"
  by (cases r; simp add: update_auto_scaling_group_max_size_def suspend_processes_def
        resume_processes_def resume_all_processes_def deregister_instance_from_load_balancer_def
        deregister_instance_from_target_group_def terminate_instance_in_auto_scaling_group_def
        set_desired_capacity_def client_def)+

lemma wait_for_all_attachments_not_zero [simp]:
  "snd (wait_for_all_attachments g lbs tgs) \<noteq> Inl (SystemExit 0)"
  unfolding wait_for_all_attachments_def
  by (intro seq_not_zero for_each_not_zero) simp_all

lemma wait_until_out_of_all_not_zero [simp]:
  "snd (wait_until_out_of_all g i a) \<noteq> Inl (SystemExit 0)"
  unfolding wait_until_out_of_all_def
  by (intro seq_not_zero for_each_not_zero) simp_all

lemma deregister_from_all_not_zero [simp]:
  "snd (deregister_from_all g i a) \<noteq> Inl (SystemExit 0)"
  unfolding deregister_from_all_def
  by (intro seq_not_zero for_each_not_zero) simp_all

lemma external_health_up_check_not_zero [simp]:
  "snd (external_health_up_check ns bs) \<noteq> Inl (SystemExit 0)"
  by (induction bs) (simp_all add: Let_def)

lemma run_server_down_command_not_zero [simp]:
  "snd (run_server_down_command h d r) \<noteq> Inl (SystemExit 0)"
  by (simp add: run_server_down_command_def split: option.splits reply.splits)

lemma replace_and_drain_not_zero [simp]:
  "snd (replace_and_drain opts g a i cur) \<noteq> Inl (SystemExit 0)"
  unfolding replace_and_drain_def
  by (intro seq_not_zero) simp_all

lemma terminate_retiree_not_zero [simp]:
  "snd (terminate_retiree opts n i x r d) \<noteq> Inl (SystemExit 0)"
  by (simp add: terminate_retiree_def seq_not_zero)

lemma retire_instance_not_zero [simp]:
  "snd (retire_instance opts g n a i x st) \<noteq> Inl (SystemExit 0)"
  unfolding retire_instance_def
  by (intro seq_not_zero) simp_all

lemma retire_loop_not_zero [simp]:
  "snd (retire_loop opts g n rs ixs st) \<noteq> Inl (SystemExit 0)"
  by (induction ixs arbitrary: st) (simp_all add: seq_not_zero split_paired_all)

lemma headroom_not_zero [simp]:
  "snd (expand_headroom opts g r) \<noteq> Inl (SystemExit 0)"
  "snd (restore_headroom opts g r) \<noteq> Inl (SystemExit 0)"
  by (simp_all add: expand_headroom_def restore_headroom_def Let_def seq_not_zero)

lemma check_processes_not_zero [simp]:
  "snd (check_processes opts g r) \<noteq> Inl (SystemExit 0)"
  by (simp add: check_processes_def Let_def seq_not_zero)

lemma settle_not_zero [simp]: "snd (settle opts env g) \<noteq> Inl (SystemExit 0)"
  unfolding settle_def
  by (intro seq_not_zero) simp_all

lemma plan_not_zero [simp]: "snd (plan opts env) \<noteq> Inl (SystemExit 0)"
  unfolding plan_def
  by (intro seq_not_zero) (simp_all add: seq_not_zero)

lemma verify_detachment_not_zero [simp]:
  "snd (verify_detachment opts env g kill) \<noteq> Inl (SystemExit 0)"
  by (simp add: verify_detachment_def Let_def seq_not_zero for_each_not_zero)

lemma restore_capacity_not_zero [simp]:
  "snd (restore_capacity opts g d r) \<noteq> Inl (SystemExit 0)"
  by (simp add: restore_capacity_def seq_not_zero)

lemma resume_suspended_not_zero [simp]:
  "snd (resume_suspended opts r) \<noteq> Inl (SystemExit 0)"
  by (simp add: resume_suspended_def seq_not_zero)

lemma wind_down_not_zero [simp]:
  "snd (wind_down opts env f g kill d) \<noteq> Inl (SystemExit 0)"
  unfolding wind_down_def
  by (intro seq_not_zero) simp_all

lemma replace_all_not_zero [simp]: "snd (replace_all opts env g) \<noteq> Inl (SystemExit 0)"
  unfolding replace_all_def
  by (intro seq_not_zero) simp_all

lemma core_logic_not_zero [simp]: "snd (core_logic opts env) \<noteq> Inl (SystemExit 0)"
  unfolding core_logic_def
  by (intro seq_not_zero) simp_all

lemma rollout_exit_zero:
  "snd (rollout opts env) = SystemExit 0 \<longleftrightarrow>
     autoscaler_opt opts \<noteq> [] \<and> snd (core_logic opts env) = Inr ()"
proof (cases "snd (core_logic opts env)")
  case (Inl e)
  with core_logic_not_zero [of opts env] have "e \<noteq> SystemExit 0" by auto
  with Inl show ?thesis by (simp add: rollout_def)
next
  case (Inr u)
  then show ?thesis by (simp add: rollout_def)
qed

lemma terminate_call_trace [simp]:
  "fst (terminate_instance_in_auto_scaling_group i n b r) = [(TerminateInstance i b, r)]"
  by (cases r; cases b; simp add: terminate_instance_in_auto_scaling_group_def client_def)

lemma terminate_retiree_trace [simp]:
  "fst (terminate_retiree opts n i x r d) = [(TerminateInstance (InstanceId x) (i + 1 = n), r)]"
  by (simp add: terminate_retiree_def fst_seq split: sum.splits)

lemma replace_and_drain_no_terminations [simp]:
  "collect termination_of (fst (replace_and_drain opts g a x cur)) = []"
  by (rule replace_and_drain_quiet) simp_all

lemma run_server_down_command_no_terminations [simp]:
  "collect termination_of (fst (run_server_down_command h d r)) = []"
  by (rule run_server_down_command_quiet) simp

lemma retire_instance_terminations:
  "terminations (fst (retire_instance opts g n a i x st)) =
     (case snd (replace_and_drain opts g a x (fst st)) of
        Inl e \<Rightarrow> []
      | Inr drained \<Rightarrow> [(InstanceId x, i + 1 = n)])"
  by (simp add: retire_instance_def terminations_def collect_seq split: sum.splits)

lemma retire_instance_returns:
  "snd (retire_instance opts g n a i x st) = Inr st' \<Longrightarrow>
     terminations (fst (retire_instance opts g n a i x st)) = [(InstanceId x, i + 1 = n)]"
proof -
  assume "snd (retire_instance opts g n a i x st) = Inr st'"
  then obtain drained where "snd (replace_and_drain opts g a x (fst st)) = Inr drained"
    by (auto simp: retire_instance_def seq_returns)
  then show ?thesis by (simp add: retire_instance_terminations)
qed

lemma retire_loop_terminations:
  "\<exists>k \<le> length ixs.
     terminations (fst (retire_loop opts g n rs ixs st)) =
       take k (map (\<lambda>(i, x). (InstanceId x, i + 1 = n)) ixs)"
proof (induction ixs arbitrary: st)
  case Nil
  then show ?case by (simp add: terminations_def)
next
  case (Cons ix ixs)
  obtain i x where ix: "ix = (i, x)" by (cases ix)
  let ?one = "retire_instance opts g n (rs i) i x st"
  show ?case
  proof (cases "snd ?one")
    case (Inl e)
    then have t: "terminations (fst (retire_loop opts g n rs (ix # ixs) st)) =
                    terminations (fst ?one)"
      by (simp add: ix terminations_def collect_seq)
    show ?thesis
    proof (cases "snd (replace_and_drain opts g (rs i) x (fst st))")
      case (Inl e')
      then have "terminations (fst ?one) = []" by (simp add: retire_instance_terminations)
      with t have "terminations (fst (retire_loop opts g n rs (ix # ixs) st)) =
                     take 0 (map (\<lambda>(i, x). (InstanceId x, i + 1 = n)) (ix # ixs))"
        by simp
      then show ?thesis by blast
    next
      case (Inr d)
      then have "terminations (fst ?one) = [(InstanceId x, i + 1 = n)]"
        by (simp add: retire_instance_terminations)
      with t have "terminations (fst (retire_loop opts g n rs (ix # ixs) st)) =
                     take 1 (map (\<lambda>(i, x). (InstanceId x, i + 1 = n)) (ix # ixs))"
        by (simp add: ix)
      moreover have "(1::nat) \<le> length (ix # ixs)" by simp
      ultimately show ?thesis by blast
    qed
  next
    case (Inr st')
    from Cons.IH [of st'] obtain k where k: "k \<le> length ixs"
      "terminations (fst (retire_loop opts g n rs ixs st')) =
         take k (map (\<lambda>(i, x). (InstanceId x, i + 1 = n)) ixs)"
      by blast
    from Inr have "terminations (fst (retire_loop opts g n rs (ix # ixs) st)) =
                     terminations (fst ?one) @
                     terminations (fst (retire_loop opts g n rs ixs st'))"
      by (simp add: ix terminations_def collect_seq)
    with retire_instance_returns [OF Inr] k(2)
    have "terminations (fst (retire_loop opts g n rs (ix # ixs) st)) =
            take (Suc k) (map (\<lambda>(i, x). (InstanceId x, i + 1 = n)) (ix # ixs))"
      by (simp add: ix)
    moreover from k(1) have "Suc k \<le> length (ix # ixs)" by simp
    ultimately show ?thesis by blast
  qed
qed

lemma retire_loop_returns:
  "snd (retire_loop opts g n rs ixs st) = Inr st' \<Longrightarrow>
     terminations (fst (retire_loop opts g n rs ixs st)) =
       map (\<lambda>(i, x). (InstanceId x, i + 1 = n)) ixs"
proof (induction ixs arbitrary: st)
  case Nil
  then show ?case by (simp add: terminations_def)
next
  case (Cons ix ixs)
  obtain i x where ix: "ix = (i, x)" by (cases ix)
  from Cons.prems obtain mid where
    one: "snd (retire_instance opts g n (rs i) i x st) = Inr mid" and
    rest: "snd (retire_loop opts g n rs ixs mid) = Inr st'"
    by (auto simp: ix seq_returns)
  from one have "terminations (fst (retire_loop opts g n rs (ix # ixs) st)) =
                   terminations (fst (retire_instance opts g n (rs i) i x st)) @
                   terminations (fst (retire_loop opts g n rs ixs mid))"
    by (simp add: ix terminations_def collect_seq)
  with retire_instance_returns [OF one] Cons.IH [OF rest] show ?case
    by (simp add: ix)
qed

lemma enumerate_flags:
  "xs \<noteq> [] \<Longrightarrow>
     map (\<lambda>(i, x). (f x, i + 1 = k + length xs)) (enumerate k xs) =
       map (\<lambda>x. (f x, False)) (butlast xs) @ [(f (last xs), True)]"
proof (induction xs arbitrary: k)
  case Nil
  then show ?case by simp
next
  case (Cons x xs)
  show ?case
  proof (cases "xs = []")
    case True
    then show ?thesis by simp
  next
    case False
    from Cons.IH [OF False, of "Suc k"] False show ?thesis by simp
  qed
qed

lemma planned_flags:
  "kill \<noteq> [] \<Longrightarrow>
     map (\<lambda>(i, x). (InstanceId x, i + 1 = length kill)) (enumerate 0 kill) =
       planned_terminations kill"
  using enumerate_flags [of kill InstanceId 0] by (simp add: planned_terminations_def)

lemma mutation_traces [simp]:
  "fst (update_auto_scaling_group_max_size n v r) = [(UpdateMaxSize n v, r)]"
  "fst (suspend_processes n ps r) = [(SuspendProcesses n ps, r)]"
  "fst (resume_processes n ps r) = [(ResumeProcesses n ps, r)]"
  "fst (resume_all_processes n r) = [(ResumeAllProcesses n, r)]"
  "fst (set_desired_capacity n v r) = [(SetDesiredCapacity n v, r)]"
  by (cases r; simp add: update_auto_scaling_group_max_size_def suspend_processes_def
        resume_processes_def resume_all_processes_def set_desired_capacity_def client_def)+

lemma settle_quiet:
  assumes "\<And>n r. p (ResumeAllProcesses n, r) = []"
      and "\<And>n ps r. p (SuspendProcesses n ps, r) = []"
  shows "collect p (fst (settle opts env first)) = []"
  unfolding settle_def check_processes_def
  by (intro collect_seq_quiet) (simp_all add: assms Let_def collect_seq_quiet)

lemma plan_quiet:
  assumes "\<And>n v r. p (SetDesiredCapacity n v, r) = []"
  shows "collect p (fst (plan opts env)) = []"
  unfolding plan_def
  by (intro collect_seq_quiet) (simp_all add: assms collect_seq_quiet)

lemma wind_down_quiet:
  assumes "\<And>n v r. p (SetDesiredCapacity n v, r) = []"
      and "\<And>n r. p (ResumeAllProcesses n, r) = []"
      and "\<And>n ps r. p (ResumeProcesses n ps, r) = []"
  shows "collect p (fst (wind_down opts env first g kill d)) = []"
  unfolding wind_down_def restore_capacity_def resume_suspended_def
  by (intro collect_seq_quiet) (simp_all add: assms collect_seq_quiet)

lemma headroom_quiet:
  assumes "\<And>n v r. p (UpdateMaxSize n v, r) = []"
  shows "collect p (fst (expand_headroom opts g r)) = []"
    and "collect p (fst (restore_headroom opts g r)) = []"
  by (simp_all add: expand_headroom_def restore_headroom_def Let_def assms collect_seq_quiet)

lemma plan_returns:
  "snd (plan opts env) = Inr planned \<Longrightarrow>
     get_autoscaling_group (rollout_groups env) = Inr (fst planned) \<and>
     gather_instances_to_kill (checkifinstancesneedtobeterminated opts) (fst planned)
       = Inr (snd planned)"
  by (auto simp: plan_def seq_returns)

lemma replace_all_terminations:
  "terminations (fst (replace_all opts env first)) =
     (case snd (settle opts env first) of
        Inl e \<Rightarrow> []
      | Inr u \<Rightarrow>
          (case snd (plan opts env) of
             Inl e \<Rightarrow> []
           | Inr planned \<Rightarrow>
               terminations
                 (fst (retire_loop opts (fst planned) (length (snd planned)) (rounds env)
                         (enumerate 0 (snd planned))
                         (get_autoscaler_healthy_instances (fst planned), False)))))"
  by (simp add: replace_all_def terminations_def collect_seq settle_quiet plan_quiet
        wind_down_quiet split: sum.splits)

lemma core_logic_terminations:
  "terminations (fst (core_logic opts env)) =
     (case get_autoscaling_group (initial_groups env) of
        Inl e \<Rightarrow> []
      | Inr first \<Rightarrow>
          (case snd (expand_headroom opts first (expand_response env)) of
             Inl e \<Rightarrow> []
           | Inr u \<Rightarrow> terminations (fst (replace_all opts env first))))"
  using replace_all_terminations
  by (simp add: core_logic_def terminations_def collect_seq headroom_quiet split: sum.splits)

lemma rollout_trace:
  "fst (rollout opts env) = (if autoscaler_opt opts = [] then [] else fst (core_logic opts env))"
  by (simp add: rollout_def split: sum.splits)

lemma terminations_nil [simp]: "terminations [] = []"
  by (simp add: terminations_def)

lemma take_flagged:
  "kill \<noteq> [] \<Longrightarrow> length (filter snd (take k (planned_terminations kill))) \<le> 1"
proof -
  assume "kill \<noteq> []"
  have whole: "filter snd (planned_terminations kill) = [(InstanceId (last kill), True)]"
    by (simp add: planned_terminations_def filter_empty_conv)
  have "filter snd (planned_terminations kill) =
          filter snd (take k (planned_terminations kill)) @
          filter snd (drop k (planned_terminations kill))"
    by (metis append_take_drop_id filter_append)
  with whole have "length (filter snd (take k (planned_terminations kill))) +
                   length (filter snd (drop k (planned_terminations kill))) = 1"
    by (metis length_append length_Cons list.size(3) One_nat_def)
  then show ?thesis by simp
qed

lemmas sample_defs = two_old_def steady_def calm_round_def run_options_def calm_answers_def
  fleet_def member_def

lemmas script_defs = rollout_def core_logic_def replace_all_def settle_def plan_def wind_down_def
  expand_headroom_def restore_headroom_def check_processes_def suspend_new_processes_def
  get_suspended_processes_def verify_detachment_def restore_capacity_def resume_suspended_def
  retire_instance_def replace_and_drain_def terminate_retiree_def
  wait_for_all_attachments_def deregister_from_all_def wait_until_out_of_all_def
  run_server_down_command_def gather_instances_to_kill_def
  wait_for_autoscaler_to_have_healthy_desired_instances_def healthy_desired_pass_def
  wait_for_new_instances_def new_instances_pass_def
  find_aws_instances_in_first_list_but_not_in_second_def found_in_def
  get_autoscaler_healthy_instances_def get_number_of_autoscaler_healthy_instances_def
  flatten_instance_health_array_from_loadbalancer_def
  update_auto_scaling_group_max_size_def suspend_processes_def resume_processes_def
  resume_all_processes_def set_desired_capacity_def terminate_instance_in_auto_scaling_group_def
  deregister_instance_from_load_balancer_def deregister_instance_from_target_group_def
  client_def reading_def seq_def enumerate_eq_zip

lemma calm_run:
  "rollout run_options (calm_answers 200) =
     ([(UpdateMaxSize ''web'' 3, Reply 200),
       (SuspendProcesses ''web'' [''ScheduledActions'', ''AlarmNotification'', ''AZRebalance''],
        Reply 200),
       (SetDesiredCapacity ''web'' 3, Reply 200),
       (TerminateInstance ''i-a'' False, Reply 200),
       (TerminateInstance ''i-b'' True, Reply 200),
       (ResumeProcesses ''web'' [''ScheduledActions'', ''AlarmNotification'', ''AZRebalance''],
        Reply 200),
       (UpdateMaxSize ''web'' 2, Reply 200)],
      SystemExit 0)"
  by (simp add: script_defs sample_defs)

lemma refused_run:
  "rollout run_options (calm_answers 500) =
     ([(UpdateMaxSize ''web'' 3, Reply 200),
       (SuspendProcesses ''web'' [''ScheduledActions'', ''AlarmNotification'', ''AZRebalance''],
        Reply 200),
       (SetDesiredCapacity ''web'' 3, Reply 200),
       (TerminateInstance ''i-a'' False, Reply 500)],
      Raised NameError)"
  by (simp add: script_defs sample_defs)

lemma sample_plan:
  "gather_instances_to_kill (checkifinstancesneedtobeterminated run_options) (fleet 3 2 two_old)
     = Inr two_old"
  by (simp add: gather_instances_to_kill_def get_autoscaler_healthy_instances_def sample_defs)

lemma sample_third: "rollout_groups (calm_answers code) = Reply (fleet 3 2 two_old # [])"
  by (simp add: calm_answers_def)

text \<open>
  C1, as amended. Let the retiree list computed from the description of line 781 have
  length N, at least 1. In every run the termination calls issued are an initial segment of
  the plan (retirees in order, the flag true for the Nth only), so at most one call carries
  the decrement flag and only the call for the last retiree can carry it. In every run that
  ends with \<^verbatim>\<open>exit(0)\<close> the calls are the whole plan: exactly one call carries the
  flag, the Nth, and every earlier retiree is terminated with the flag false.
\<close>

theorem last_retiree_alone_decrements:
  assumes third: "rollout_groups env = Reply (autoscaler # others)"
      and plan: "gather_instances_to_kill (checkifinstancesneedtobeterminated opts) autoscaler
                   = Inr instances_to_kill"
      and some: "instances_to_kill \<noteq> []"
  shows "(\<exists>k \<le> length instances_to_kill.
            terminations (fst (rollout opts env)) =
              take k (planned_terminations instances_to_kill))
         \<and> length (filter snd (terminations (fst (rollout opts env)))) \<le> 1
         \<and> (snd (rollout opts env) = SystemExit 0 \<longrightarrow>
              terminations (fst (rollout opts env)) = planned_terminations instances_to_kill)"
proof -
  let ?T = "terminations (fst (rollout opts env))"
  let ?loop = "retire_loop opts autoscaler (length instances_to_kill) (rounds env)
                 (enumerate 0 instances_to_kill)
                 (get_autoscaler_healthy_instances autoscaler, False)"
  have planned: "planned = (autoscaler, instances_to_kill)"
    if "snd (plan opts env) = Inr planned" for planned
    using plan_returns [OF that] third plan by (cases planned) simp
  have flags: "map (\<lambda>(i, x). (InstanceId x, i + 1 = length instances_to_kill))
                 (enumerate 0 instances_to_kill) = planned_terminations instances_to_kill"
    by (rule planned_flags [OF some])
  have either: "?T = [] \<or> ?T = terminations (fst ?loop)"
  proof (cases "snd (plan opts env)")
    case (Inl e)
    then show ?thesis
      by (simp add: rollout_trace core_logic_terminations replace_all_terminations
            split: sum.splits)
  next
    case (Inr planned)
    with planned [OF Inr] show ?thesis
      by (simp add: rollout_trace core_logic_terminations replace_all_terminations
            split: sum.splits)
  qed
  have prefix: "\<exists>k \<le> length instances_to_kill. ?T = take k (planned_terminations instances_to_kill)"
  proof -
    from either show ?thesis
    proof
      assume "?T = []"
      then have "?T = take 0 (planned_terminations instances_to_kill)" by simp
      then show ?thesis by blast
    next
      assume loop: "?T = terminations (fst ?loop)"
      from retire_loop_terminations [of "enumerate 0 instances_to_kill" opts autoscaler
             "length instances_to_kill" "rounds env"
             "(get_autoscaler_healthy_instances autoscaler, False)"]
      obtain k where "k \<le> length (enumerate 0 instances_to_kill)"
        "terminations (fst ?loop) =
           take k (map (\<lambda>(i, x). (InstanceId x, i + 1 = length instances_to_kill))
                     (enumerate 0 instances_to_kill))"
        by blast
      with loop flags have "k \<le> length instances_to_kill \<and>
          ?T = take k (planned_terminations instances_to_kill)" by simp
      then show ?thesis by blast
    qed
  qed
  then obtain k where k: "?T = take k (planned_terminations instances_to_kill)" by blast
  have one: "length (filter snd ?T) \<le> 1"
    unfolding k by (rule take_flagged [OF some])
  have complete: "?T = planned_terminations instances_to_kill"
    if ok: "snd (rollout opts env) = SystemExit 0"
  proof -
    from ok have name: "autoscaler_opt opts \<noteq> []" and core: "snd (core_logic opts env) = Inr ()"
      by (simp_all add: rollout_exit_zero)
    from core obtain first where
      first: "get_autoscaling_group (initial_groups env) = Inr first" and
      expanded: "snd (expand_headroom opts first (expand_response env)) = Inr ()" and
      replaced: "snd (replace_all opts env first) = Inr ()"
      by (auto simp: core_logic_def seq_returns)
    from replaced obtain planned state where
      settled: "snd (settle opts env first) = Inr ()" and
      p: "snd (plan opts env) = Inr planned" and
      l: "snd (retire_loop opts (fst planned) (length (snd planned)) (rounds env)
                 (enumerate 0 (snd planned))
                 (get_autoscaler_healthy_instances (fst planned), False)) = Inr state"
      by (auto simp: replace_all_def seq_returns)
    from planned [OF p] l have l': "snd ?loop = Inr state" by simp
    have "?T = terminations (fst ?loop)"
      using name first expanded settled p planned [OF p]
      by (simp add: rollout_trace core_logic_terminations replace_all_terminations)
    with retire_loop_returns [OF l'] flags show ?thesis by simp
  qed
  from prefix one complete show ?thesis by blast
qed

theorem last_retiree_witness:
  "rollout_groups (calm_answers 200) = Reply [fleet 3 2 two_old]
   \<and> gather_instances_to_kill (checkifinstancesneedtobeterminated run_options)
        (fleet 3 2 two_old) = Inr two_old
   \<and> two_old \<noteq> []
   \<and> snd (rollout run_options (calm_answers 200)) = SystemExit 0
   \<and> terminations (fst (rollout run_options (calm_answers 200))) = planned_terminations two_old
   \<and> planned_terminations two_old = [(''i-a'', False), (''i-b'', True)]"
proof -
  have some: "two_old \<noteq> []" by (simp add: two_old_def)
  have ok: "snd (rollout run_options (calm_answers 200)) = SystemExit 0"
    by (simp add: calm_run)
  have "terminations (fst (rollout run_options (calm_answers 200))) = planned_terminations two_old"
    using last_retiree_alone_decrements [OF sample_third sample_plan some, of 200] ok by blast
  moreover have "planned_terminations two_old = [(''i-a'', False), (''i-b'', True)]"
    by (simp add: planned_terminations_def two_old_def member_def)
  ultimately show ?thesis using some ok sample_plan sample_third [of 200] by simp
qed

text \<open>
  C1 as stated fails for a run that stops inside the loop: with two retirees and a
  non-200 answer to the first termination, the only termination call of the run carries the
  flag false, and no call carries it true.
\<close>

theorem last_retiree_counterexample:
  "rollout_groups (calm_answers 500) = Reply [fleet 3 2 two_old]
   \<and> gather_instances_to_kill (checkifinstancesneedtobeterminated run_options)
        (fleet 3 2 two_old) = Inr two_old
   \<and> length two_old = 2
   \<and> terminations (fst (rollout run_options (calm_answers 500))) = [(''i-a'', False)]
   \<and> filter snd (terminations (fst (rollout run_options (calm_answers 500)))) = []
   \<and> snd (rollout run_options (calm_answers 500)) = Raised NameError"
  using sample_plan sample_third [of 500]
  by (simp add: refused_run terminations_def two_old_def)

text \<open>
  C9. When the first lookup of the fleet (line 695) comes back with no group, the script
  issues no call that changes anything (its trace is empty) and the process ends with
  status 1: \<^verbatim>\<open>get_autoscaling_group\<close> raises, nothing catches the exception, and the
  interpreter exits with 1.
\<close>

theorem missing_fleet_exits_one_without_mutation:
  "initial_groups env = Reply [] \<Longrightarrow>
     fst (rollout opts env) = [] \<and> exit_status (snd (rollout opts env)) = Some 1"
  by (simp add: rollout_def core_logic_def reading_def)

theorem missing_fleet_witness:
  "initial_groups lost_answers = Reply []
   \<and> fst (rollout run_options lost_answers) = []
   \<and> exit_status (snd (rollout run_options lost_answers)) = Some 1"
proof -
  have none: "initial_groups lost_answers = Reply []" by (simp add: lost_answers_def)
  from missing_fleet_exits_one_without_mutation [OF none, of run_options] none
  show ?thesis by simp
qed

lemma retire_instance_quiet:
  assumes "\<And>h i r. p (ShellCommand h i, r) = []"
      and "\<And>i n r. p (DeregisterFromLoadBalancer i n, r) = []"
      and "\<And>i n r. p (DeregisterTargets i n, r) = []"
      and "\<And>i b r. p (TerminateInstance i b, r) = []"
  shows "collect p (fst (retire_instance opts g n a i x st)) = []"
  unfolding retire_instance_def
  by (intro collect_seq_quiet)
     (simp_all add: assms replace_and_drain_quiet run_server_down_command_quiet)

lemma retire_loop_quiet:
  assumes "\<And>h i r. p (ShellCommand h i, r) = []"
      and "\<And>i n r. p (DeregisterFromLoadBalancer i n, r) = []"
      and "\<And>i n r. p (DeregisterTargets i n, r) = []"
      and "\<And>i b r. p (TerminateInstance i b, r) = []"
  shows "collect p (fst (retire_loop opts g n rs ixs st)) = []"
  by (induction ixs arbitrary: st)
     (simp_all add: collect_seq_quiet retire_instance_quiet assms split_paired_all)

lemma replace_all_no_max_size [simp]:
  "collect max_size_setting_of (fst (replace_all opts env first)) = []"
  unfolding replace_all_def
  by (intro collect_seq_quiet)
     (simp_all add: settle_quiet plan_quiet retire_loop_quiet wind_down_quiet)

lemma expand_headroom_eval:
  "expand_headroom opts g r =
     (if MaxSize g = DesiredCapacity g
      then ([(UpdateMaxSize (autoscaler_opt opts) (MaxSize g + 1), r)],
            case r of Raises \<Rightarrow> Inl (Raised BotoError)
                    | Reply code \<Rightarrow> if code = 200 then Inr () else Inl (SystemExit 1))
      else ([], Inr ()))"
  by (cases r)
     (simp_all add: expand_headroom_def update_auto_scaling_group_max_size_def client_def
        reading_def)

lemma restore_headroom_eval:
  "restore_headroom opts g r =
     (if MaxSize g = DesiredCapacity g
      then ([(UpdateMaxSize (autoscaler_opt opts) (MaxSize g), r)],
            case r of Raises \<Rightarrow> Inl (Raised BotoError)
                    | Reply code \<Rightarrow> if code = 200 then Inr () else Inl (SystemExit 1))
      else ([], Inr ()))"
  by (cases r)
     (simp_all add: restore_headroom_def update_auto_scaling_group_max_size_def client_def
        reading_def)

lemma core_logic_unfolded:
  "initial_groups env = Reply (first # others) \<Longrightarrow>
     core_logic opts env =
       seq (expand_headroom opts first (expand_response env))
         (\<lambda>_. seq (replace_all opts env first)
                 (\<lambda>_. restore_headroom opts first (shrink_response env)))"
  by (simp add: core_logic_def reading_def)

lemma max_size_settings_simps [simp]:
  "max_size_settings [] = []"
  "max_size_settings (e # t) = max_size_setting_of e @ max_size_settings t"
  "max_size_settings (t @ u) = max_size_settings t @ max_size_settings u"
  by (simp_all add: max_size_settings_def)

lemma replace_all_max_size [simp]: "max_size_settings (fst (replace_all opts env first)) = []"
  by (simp add: max_size_settings_def)

text \<open>
  C5. Let the script have a fleet name and let the first lookup answer with a description.
  The script asks for a maximum size of the old maximum plus one if and only if the old
  maximum equals the old desired capacity, and then as its first mutation; it asks for no
  other maximum size except the old one, after everything else. In a run that ends with
  \<^verbatim>\<open>exit(0)\<close> after such a bump, the last call of the run sets the maximum size back to
  the old value and was accepted. When that restoring call is issued and is not answered
  with status 200, the process ends with status 1.
\<close>

theorem max_size_bumped_iff_full_and_restored:
  assumes name: "autoscaler_opt opts \<noteq> []"
      and first: "initial_groups env = Reply (first # others)"
  shows "(MaxSize first \<noteq> DesiredCapacity first \<longrightarrow>
            max_size_settings (fst (rollout opts env)) = [])
       \<and> (MaxSize first = DesiredCapacity first \<longrightarrow>
            max_size_settings (fst (rollout opts env)) = [MaxSize first + 1] \<or>
            max_size_settings (fst (rollout opts env)) = [MaxSize first + 1, MaxSize first])
       \<and> (MaxSize first = DesiredCapacity first \<longrightarrow>
            snd (rollout opts env) = SystemExit 0 \<longrightarrow>
            max_size_settings (fst (rollout opts env)) = [MaxSize first + 1, MaxSize first] \<and>
            last (fst (rollout opts env)) =
              (UpdateMaxSize (autoscaler_opt opts) (MaxSize first), Reply 200))
       \<and> (MaxSize first = DesiredCapacity first \<longrightarrow>
            max_size_settings (fst (rollout opts env)) = [MaxSize first + 1, MaxSize first] \<longrightarrow>
            shrink_response env \<noteq> Reply 200 \<longrightarrow>
            last (fst (rollout opts env)) =
              (UpdateMaxSize (autoscaler_opt opts) (MaxSize first), shrink_response env) \<and>
            exit_status (snd (rollout opts env)) = Some 1)"
proof -
  let ?expand = "expand_headroom opts first (expand_response env)"
  let ?middle = "replace_all opts env first"
  let ?restore = "restore_headroom opts first (shrink_response env)"
  have core: "core_logic opts env = seq ?expand (\<lambda>_. seq ?middle (\<lambda>_. ?restore))"
    by (rule core_logic_unfolded [OF first])
  have run: "rollout opts env =
               (case snd (core_logic opts env) of
                  Inl e \<Rightarrow> (fst (core_logic opts env), e)
                | Inr u \<Rightarrow> (fst (core_logic opts env), SystemExit 0))"
    using name by (simp add: rollout_def)
  show ?thesis
  proof (cases "MaxSize first = DesiredCapacity first")
    case False
    then have "?expand = ([], Inr ())" "?restore = ([], Inr ())"
      by (simp_all add: expand_headroom_eval restore_headroom_eval)
    with core have "max_size_settings (fst (core_logic opts env)) = []"
      by (simp add: fst_seq split: sum.splits)
    with False run show ?thesis by (simp split: sum.splits)
  next
    case True
    let ?up = "(UpdateMaxSize (autoscaler_opt opts) (MaxSize first + 1), expand_response env)"
    let ?down = "(UpdateMaxSize (autoscaler_opt opts) (MaxSize first), shrink_response env)"
    show ?thesis
    proof (cases "expand_response env = Reply 200")
      case False
      with True have stop: "fst ?expand = [?up]" "\<exists>e. snd ?expand = Inl e \<and> e \<noteq> SystemExit 0"
        by (auto simp: expand_headroom_eval split: reply.splits)
      then obtain e where e: "snd ?expand = Inl e" "e \<noteq> SystemExit 0" by blast
      with stop core have "core_logic opts env = ([?up], Inl e)"
        by (simp add: seq_def)
      with run e True show ?thesis by simp
    next
      case up: True
      with True have expand: "?expand = ([?up], Inr ())"
        by (simp add: expand_headroom_eval)
      show ?thesis
      proof (cases "snd ?middle")
        case (Inl e)
        with replace_all_not_zero [of opts env first] have e: "e \<noteq> SystemExit 0" by auto
        from Inl expand core have "core_logic opts env = (?up # fst ?middle, Inl e)"
          by (simp add: seq_def)
        with run e True show ?thesis by simp
      next
        case (Inr u)
        from True have restore: "fst ?restore = [?down]"
            "snd ?restore = (case shrink_response env of
                               Raises \<Rightarrow> Inl (Raised BotoError)
                             | Reply code \<Rightarrow> if code = 200 then Inr () else Inl (SystemExit 1))"
          by (simp_all add: restore_headroom_eval)
        from Inr expand core restore
        have c: "fst (core_logic opts env) = ?up # fst ?middle @ [?down]"
                "snd (core_logic opts env) = snd ?restore"
          by (simp_all add: seq_def)
        from c(1) run have t: "fst (rollout opts env) = ?up # fst ?middle @ [?down]"
          by (simp split: sum.splits)
        then have settings: "max_size_settings (fst (rollout opts env)) =
                               [MaxSize first + 1, MaxSize first]"
          by simp
        have final: "last (fst (rollout opts env)) = ?down"
          using t by simp
        have ok: "shrink_response env = Reply 200" if "snd (rollout opts env) = SystemExit 0"
          using that run c(2) restore(2)
          by (auto split: sum.splits reply.splits if_splits)
        have bad: "exit_status (snd (rollout opts env)) = Some 1"
          if "shrink_response env \<noteq> Reply 200"
          using that run c(2) restore(2)
          by (auto split: sum.splits reply.splits if_splits)
        from True settings final ok bad show ?thesis by auto
      qed
    qed
  qed
qed

theorem max_size_witness:
  "autoscaler_opt run_options \<noteq> []
   \<and> initial_groups (calm_answers 200) = Reply [fleet 2 2 two_old]
   \<and> MaxSize (fleet 2 2 two_old) = DesiredCapacity (fleet 2 2 two_old)
   \<and> snd (rollout run_options (calm_answers 200)) = SystemExit 0
   \<and> max_size_settings (fst (rollout run_options (calm_answers 200))) = [3, 2]
   \<and> last (fst (rollout run_options (calm_answers 200))) = (UpdateMaxSize ''web'' 2, Reply 200)"
proof -
  have name: "autoscaler_opt run_options \<noteq> []" by (simp add: run_options_def)
  have first: "initial_groups (calm_answers 200) = Reply (fleet 2 2 two_old # [])"
    by (simp add: calm_answers_def)
  have full: "MaxSize (fleet 2 2 two_old) = DesiredCapacity (fleet 2 2 two_old)"
    by (simp add: fleet_def)
  have ok: "snd (rollout run_options (calm_answers 200)) = SystemExit 0"
    by (simp add: calm_run)
  from max_size_bumped_iff_full_and_restored [OF name first] full ok
  have "max_size_settings (fst (rollout run_options (calm_answers 200))) =
          [MaxSize (fleet 2 2 two_old) + 1, MaxSize (fleet 2 2 two_old)]
        \<and> last (fst (rollout run_options (calm_answers 200))) =
          (UpdateMaxSize (autoscaler_opt run_options) (MaxSize (fleet 2 2 two_old)), Reply 200)"
    by blast
  then have "max_size_settings (fst (rollout run_options (calm_answers 200))) = [3, 2]
        \<and> last (fst (rollout run_options (calm_answers 200))) = (UpdateMaxSize ''web'' 2, Reply 200)"
    by (simp add: fleet_def run_options_def)
  with name first full ok show ?thesis by simp
qed

lemma plan_empty:
  assumes "rollout_groups env = Reply (autoscaler # others)"
      and "gather_instances_to_kill (checkifinstancesneedtobeterminated opts) autoscaler = Inr []"
  shows "plan opts env = ([], Inr (autoscaler, []))"
  using assms by (simp add: plan_def reading_def)

lemma replace_all_empty:
  assumes "rollout_groups env = Reply (autoscaler # others)"
      and "gather_instances_to_kill (checkifinstancesneedtobeterminated opts) autoscaler = Inr []"
  shows "replace_all opts env first =
           seq (settle opts env first) (\<lambda>_. wind_down opts env first autoscaler [] False)"
  by (simp add: replace_all_def plan_empty [OF assms])

lemma wind_down_quiet_original:
  assumes "\<And>n r. p (SetDesiredCapacity n (DesiredCapacity first), r) = []"
      and "\<And>n r. p (ResumeAllProcesses n, r) = []"
      and "\<And>n ps r. p (ResumeProcesses n ps, r) = []"
  shows "collect p (fst (wind_down opts env first g kill d)) = []"
  unfolding wind_down_def restore_capacity_def resume_suspended_def
  by (intro collect_seq_quiet) (simp_all add: assms collect_seq_quiet)

lemma core_logic_empty_quiet:
  assumes first: "initial_groups env = Reply (first # others)"
      and third: "rollout_groups env = Reply (autoscaler # others')"
      and none: "gather_instances_to_kill (checkifinstancesneedtobeterminated opts) autoscaler
                   = Inr []"
      and "\<And>n v r. p (UpdateMaxSize n v, r) = []"
      and "\<And>n r. p (SetDesiredCapacity n (DesiredCapacity first), r) = []"
      and "\<And>n r. p (ResumeAllProcesses n, r) = []"
      and "\<And>n ps r. p (ResumeProcesses n ps, r) = []"
      and "\<And>n ps r. p (SuspendProcesses n ps, r) = []"
  shows "collect p (fst (core_logic opts env)) = []"
  unfolding core_logic_unfolded [OF first] replace_all_empty [OF third none]
  by (intro collect_seq_quiet)
     (simp_all add: assms headroom_quiet settle_quiet wind_down_quiet_original)

lemma collect_filter: "collect (\<lambda>e. filter P (pick e)) t = filter P (collect pick t)"
  by (induction t) simp_all

lemma desired_capacity_unchanged:
  "terminations t = [] \<Longrightarrow> filter (\<lambda>v. v \<noteq> d) (desired_settings t) = [] \<Longrightarrow>
     desired_capacity_after d t = d"
proof (induction t)
  case Nil
  then show ?case by (simp add: desired_capacity_after_def)
next
  case (Cons e t)
  obtain c r where e: "e = (c, r)" by (cases e)
  from Cons.prems have here: "termination_of e = []"
      "filter (\<lambda>v. v \<noteq> d) (desired_setting_of e) = []"
    and rest: "terminations t = []" "filter (\<lambda>v. v \<noteq> d) (desired_settings t) = []"
    by (simp_all add: terminations_def desired_settings_def)
  have "desired_capacity_step e d = d"
    using here unfolding e by (cases c; cases r) (simp_all split: if_splits)
  with Cons.IH [OF rest] show ?case
    by (simp add: desired_capacity_after_def)
qed

lemma current_plan:
  "gather_instances_to_kill (checkifinstancesneedtobeterminated checking_options) current_fleet
     = Inr []"
  by (simp add: gather_instances_to_kill_def get_autoscaler_healthy_instances_def
        get_autoscaling_group_configuration_def get_instance_configuration_def
        current_fleet_def checking_options_def sample_defs)

lemma current_run:
  "rollout checking_options current_answers =
     ([(SuspendProcesses ''web'' [''ScheduledActions'', ''AlarmNotification'', ''AZRebalance''],
        Reply 200),
       (SetDesiredCapacity ''web'' 2, Reply 200),
       (ResumeProcesses ''web'' [''ScheduledActions'', ''AlarmNotification'', ''AZRebalance''],
        Reply 200)],
      SystemExit 0)"
  by (simp add: script_defs get_autoscaling_group_configuration_def
        get_instance_configuration_def current_fleet_def checking_options_def
        current_answers_def sample_defs)

text \<open>
  C6. Let the retiree list computed from the description of line 781 be empty. Then the
  run issues no termination call, and every desired capacity it sets is the one the first
  lookup reported: there is no increase, and the only such call the script can make is the
  one of line 1014 that sets the saved value. Hence, when nothing but the script changes the
  fleet, its desired capacity at the end of the run is the one at the start.
\<close>

theorem empty_plan_leaves_capacity_alone:
  assumes first: "initial_groups env = Reply (first # others)"
      and third: "rollout_groups env = Reply (autoscaler # others')"
      and none: "gather_instances_to_kill (checkifinstancesneedtobeterminated opts) autoscaler
                   = Inr []"
  shows "terminations (fst (rollout opts env)) = []
       \<and> set (desired_settings (fst (rollout opts env))) \<subseteq> {DesiredCapacity first}
       \<and> desired_capacity_after (DesiredCapacity first) (fst (rollout opts env))
           = DesiredCapacity first"
proof -
  let ?d = "DesiredCapacity first"
  let ?T = "fst (rollout opts env)"
  have "collect termination_of (fst (core_logic opts env)) = []"
    by (rule core_logic_empty_quiet [OF first third none]) simp_all
  then have no_kill: "terminations ?T = []"
    by (simp add: rollout_trace terminations_def)
  have "collect (\<lambda>e. filter (\<lambda>v. v \<noteq> ?d) (desired_setting_of e)) (fst (core_logic opts env)) = []"
    by (rule core_logic_empty_quiet [OF first third none]) simp_all
  then have same: "filter (\<lambda>v. v \<noteq> ?d) (desired_settings ?T) = []"
    by (simp add: rollout_trace desired_settings_def collect_filter)
  then have only: "set (desired_settings ?T) \<subseteq> {?d}"
    by (auto simp: filter_empty_conv)
  from no_kill only desired_capacity_unchanged [OF no_kill same] show ?thesis by simp
qed

theorem empty_plan_witness:
  "initial_groups current_answers = Reply [current_fleet]
   \<and> rollout_groups current_answers = Reply [current_fleet]
   \<and> gather_instances_to_kill (checkifinstancesneedtobeterminated checking_options)
        current_fleet = Inr []
   \<and> terminations (fst (rollout checking_options current_answers)) = []
   \<and> set (desired_settings (fst (rollout checking_options current_answers)))
        \<subseteq> {DesiredCapacity current_fleet}
   \<and> desired_capacity_after (DesiredCapacity current_fleet)
        (fst (rollout checking_options current_answers)) = DesiredCapacity current_fleet
   \<and> desired_settings (fst (rollout checking_options current_answers)) = [2]
   \<and> DesiredCapacity current_fleet = 2"
proof -
  have first: "initial_groups current_answers = Reply (current_fleet # [])"
    by (simp add: current_answers_def)
  have third: "rollout_groups current_answers = Reply (current_fleet # [])"
    by (simp add: current_answers_def)
  have shown: "desired_settings (fst (rollout checking_options current_answers)) = [2]"
    by (simp add: current_run desired_settings_def)
  have two: "DesiredCapacity current_fleet = 2"
    by (simp add: current_fleet_def fleet_def)
  from empty_plan_leaves_capacity_alone [OF first third current_plan] first third
    current_plan shown two
  show ?thesis by simp
qed

text \<open>
  C3 does not hold of the code. The claim: the up-check loop returns only when the command
  exited 0 for every new instance in one batch, and a failure to resolve the detail of an
  instance counts as a failed check and makes the batch be retried. The code: the
  \<^verbatim>\<open>except\<close> clause of line 887 logs a warning and leaves
  \<^verbatim>\<open>succeeded_health_up_check\<close> as it is. With one new instance whose
  \<^verbatim>\<open>describe_instances\<close> call raises, the first batch runs no command at all and the
  loop is left at once; a command that exits 1 is retried, as the help text of the option
  (line 84) promises.
\<close>

theorem up_check_leaves_when_detail_is_unresolved:
  "external_health_up_check [member ''i-c'' ''Healthy''] [unresolved_batch] = ([], Inr ())
   \<and> external_health_up_check [member ''i-c'' ''Healthy''] [failing_batch] =
       ([(ShellCommand UpCheck ''i-c'', Reply 1)], Inl Blocked)"
  by (simp add: check_new_instance_def unresolved_batch_def failing_batch_def member_def)

text \<open>
  C4 does not hold of the code for target groups. The claim: a deregistration that is not
  answered with success is logged and the rollout goes on. The code: the failure branch of
  \<^verbatim>\<open>deregister_instance_from_target_group\<close> (line 370) builds its message from
  \<^verbatim>\<open>loadbalancer_name\<close>, a name that does not exist there, so the branch raises
  \<^verbatim>\<open>NameError\<close> and the run ends with status 1 before the drain wait. The sibling
  \<^verbatim>\<open>deregister_instance_from_load_balancer\<close> logs and returns \<^verbatim>\<open>False\<close>.
\<close>

theorem target_group_deregistration_failure_aborts:
  "deregister_instance_from_target_group ''i-a'' ''arn:web-tg'' (Reply 500) =
     ([(DeregisterTargets ''i-a'' ''arn:web-tg'', Reply 500)], Inl (Raised NameError))
   \<and> deregister_instance_from_load_balancer ''i-a'' ''web-elb'' (Reply 500) =
     ([(DeregisterFromLoadBalancer ''i-a'' ''web-elb'', Reply 500)], Inr False)
   \<and> rollout run_options refusing_answers =
     ([(UpdateMaxSize ''web'' 3, Reply 200),
       (SuspendProcesses ''web'' [''ScheduledActions'', ''AlarmNotification'', ''AZRebalance''],
        Reply 200),
       (SetDesiredCapacity ''web'' 3, Reply 200),
       (DeregisterTargets ''i-a'' ''arn:web-tg'', Reply 500)],
      Raised NameError)
   \<and> exit_status (snd (rollout run_options refusing_answers)) = Some 1"
proof -
  have run: "rollout run_options refusing_answers =
     ([(UpdateMaxSize ''web'' 3, Reply 200),
       (SuspendProcesses ''web'' [''ScheduledActions'', ''AlarmNotification'', ''AZRebalance''],
        Reply 200),
       (SetDesiredCapacity ''web'' 3, Reply 200),
       (DeregisterTargets ''i-a'' ''arn:web-tg'', Reply 500)],
      Raised NameError)"
    by (simp add: script_defs wait_for_complete_targetgroup_autoscaler_attachment_def
          targetgroup_attachment_pass_def healthy_target_ids_def attachment_complete_def
          count_successes_def refusing_answers_def behind_target_group_def all_healthy_def
          sample_defs)
  show ?thesis
    by (simp add: run deregister_instance_from_target_group_def
          deregister_instance_from_load_balancer_def client_def reading_def)
qed

end
